theory Spec2Isabelle
  imports Main "HOL-Library.Word"
begin

chapter \<open>Embedding of the program\<close>

section \<open>GEOS overlay: \<open>OverlayOp.cpp\<close>\<close>

subsection \<open>Locations, operation codes, dimensions\<close>

text \<open>
  \<open>geom::Location\<close> is a scoped enumeration, declared in \<open>Location.hpp\<close>, which is not
  part of the sources at hand. \<open>OverlayOp.cpp\<close> names its enumerators \<open>INTERIOR\<close>,
  \<open>BOUNDARY\<close> and \<open>EXTERIOR\<close>; \<open>locOther n\<close> stands for any other value of the
  enumeration.
\<close>

datatype Location = INTERIOR | BOUNDARY | EXTERIOR | locOther int

text \<open>
  \<open>OverlayOp::OpCode\<close> has the four enumerators the \<open>switch\<close> statements of
  \<open>OverlayOp.cpp\<close> name. A C++ enumeration can also hold a value that is none of its
  enumerators: \<open>opOther n\<close> stands for such a value, the one on which every \<open>switch\<close>
  falls through.
\<close>

datatype OpCode = opINTERSECTION | opUNION | opDIFFERENCE | opSYMDIFFERENCE | opOther int

text \<open>
  \<open>Dimension::DimensionType\<close> is an unscoped enumeration, compared by \<open>std::min\<close> and
  \<open>std::max\<close> through its integer values. \<open>Geometry.hpp\<close> documents the values of a
  geometry's dimension as \<open>0=point, 1=line, 2=surface\<close>. The value of
  \<open>Dimension::False\<close> is declared in \<open>Dimension.hpp\<close>, which is not part of the sources
  at hand: the functions below take it as the argument \<open>dimFalse\<close>.
\<close>

type_synonym DimensionType = int

definition Dimension_P :: DimensionType where
  "Dimension_P = 0"

definition Dimension_L :: DimensionType where
  "Dimension_L = 1"

definition Dimension_A :: DimensionType where
  "Dimension_A = 2"

subsection \<open>\<open>OverlayOp::isResultOfOp(Location, Location, OpCode)\<close>\<close>

definition isResultOfOp :: "Location \<Rightarrow> Location \<Rightarrow> OpCode \<Rightarrow> bool" where
  "isResultOfOp l0 l1 opCode =
    (let loc0 = (if l0 = BOUNDARY then INTERIOR else l0);
         loc1 = (if l1 = BOUNDARY then INTERIOR else l1)
     in case opCode of
          opINTERSECTION \<Rightarrow> loc0 = INTERIOR \<and> loc1 = INTERIOR
        | opUNION \<Rightarrow> loc0 = INTERIOR \<or> loc1 = INTERIOR
        | opDIFFERENCE \<Rightarrow> loc0 = INTERIOR \<and> loc1 \<noteq> INTERIOR
        | opSYMDIFFERENCE \<Rightarrow>
            (loc0 = INTERIOR \<and> loc1 \<noteq> INTERIOR) \<or> (loc0 \<noteq> INTERIOR \<and> loc1 = INTERIOR)
        | opOther _ \<Rightarrow> False)"

subsection \<open>\<open>OverlayOp::resultDimension\<close> and \<open>OverlayOp::createEmptyResult\<close>\<close>

text \<open>
  \<open>Geometry::getDimension\<close> is pure virtual: the embedding takes it as the function
  \<open>getDimension\<close> on the geometries \<open>'g\<close>.
\<close>

definition resultDimension ::
  "DimensionType \<Rightarrow> ('g \<Rightarrow> DimensionType) \<Rightarrow> OpCode \<Rightarrow> 'g \<Rightarrow> 'g \<Rightarrow> DimensionType" where
  "resultDimension dimFalse getDimension overlayOpCode g0 g1 =
    (let dim0 = getDimension g0;
         dim1 = getDimension g1
     in case overlayOpCode of
          opINTERSECTION \<Rightarrow> min dim0 dim1
        | opUNION \<Rightarrow> max dim0 dim1
        | opDIFFERENCE \<Rightarrow> dim0
        | opSYMDIFFERENCE \<Rightarrow> max dim0 dim1
        | opOther _ \<Rightarrow> dimFalse)"

text \<open>
  The \<open>GeometryFactory\<close> is not part of the sources at hand. The record holds the
  factory methods \<open>OverlayOp.cpp\<close> calls: the four that create an empty geometry, and
  \<open>buildGeometry\<close>, which builds a geometry from a vector of component geometries.
\<close>

record 'g GeometryFactory =
  createPoint :: 'g
  createLineString :: 'g
  createPolygon :: 'g
  createGeometryCollection :: 'g
  buildGeometry :: "'g list \<Rightarrow> 'g"

definition createEmptyResult ::
  "DimensionType \<Rightarrow> ('g \<Rightarrow> DimensionType) \<Rightarrow> OpCode \<Rightarrow> 'g \<Rightarrow> 'g \<Rightarrow> 'g GeometryFactory \<Rightarrow> 'g" where
  "createEmptyResult dimFalse getDimension overlayOpCode a b geomFact =
    (let d = resultDimension dimFalse getDimension overlayOpCode a b
     in if d = Dimension_P then createPoint geomFact
        else if d = Dimension_L then createLineString geomFact
        else if d = Dimension_A then createPolygon geomFact
        else createGeometryCollection geomFact)"

subsection \<open>\<open>OverlayOp::computeGeometry\<close>\<close>

text \<open>
  The three result vectors hold pointers to \<open>Point\<close>, \<open>LineString\<close> and \<open>Polygon\<close>;
  inserted into the vector of \<open>Geometry\<close> pointers they are geometries \<open>'g\<close>.
  \<open>geomList\<close> is the vector the function fills; \<open>arg0\<close> and \<open>arg1\<close> are the
  geometries of the two argument graphs.
\<close>

definition geomList :: "'g list \<Rightarrow> 'g list \<Rightarrow> 'g list \<Rightarrow> 'g list" where
  "geomList nResultPointList nResultLineList nResultPolyList =
     ([] @ nResultPointList) @ nResultLineList @ nResultPolyList"

definition computeGeometry ::
  "DimensionType \<Rightarrow> ('g \<Rightarrow> DimensionType) \<Rightarrow> 'g GeometryFactory \<Rightarrow> 'g \<Rightarrow> 'g \<Rightarrow>
   'g list \<Rightarrow> 'g list \<Rightarrow> 'g list \<Rightarrow> OpCode \<Rightarrow> 'g" where
  "computeGeometry dimFalse getDimension geomFact arg0 arg1
       nResultPointList nResultLineList nResultPolyList opCode =
    (let gl = geomList nResultPointList nResultLineList nResultPolyList
     in if gl = [] then createEmptyResult dimFalse getDimension opCode arg0 arg1 geomFact
        else buildGeometry geomFact gl)"

subsection \<open>\<open>OverlayOp::computeOverlay\<close>\<close>

text \<open>
  Exceptions are values. A member function of the overlay object is a computation on
  the object's state that either throws or returns: the state it leaves behind is kept
  in both cases, since a thrown exception does not undo the writes before it.
\<close>

datatype exn = TopologyException string | AssertionFailure | NullDereference | OtherException string

type_synonym ('a, 's) comp = "'s \<Rightarrow> (exn + 'a) \<times> 's"

definition returnc :: "'a \<Rightarrow> ('a, 's) comp" where
  "returnc a s = (Inr a, s)"

definition bindc :: "('a, 's) comp \<Rightarrow> ('a \<Rightarrow> ('b, 's) comp) \<Rightarrow> ('b, 's) comp" where
  "bindc m f s = (case m s of (Inl ex, s') \<Rightarrow> (Inl ex, s') | (Inr a, s') \<Rightarrow> f a s')"

definition seqc :: "('a, 's) comp \<Rightarrow> ('b, 's) comp \<Rightarrow> ('b, 's) comp" where
  "seqc m n = bindc m (\<lambda>_. n)"

fun seqs :: "(unit, 's) comp list \<Rightarrow> (unit, 's) comp" where
  "seqs [] = returnc ()"
| "seqs (m # ms) = seqc m (seqs ms)"

text \<open>
  The fields of the overlay object that \<open>computeOverlay\<close> itself reads and writes:
  the edge list, the three result lists and the result geometry (null pointers are
  \<open>None\<close>). Everything else of the object (the argument graphs, the result graph, the
  line intersector, the point locator, the elevation matrix) is \<open>other\<close>.
\<close>

record ('e, 'g, 'x) OverlayOp =
  edgeList :: "'e list"
  resultPolyList :: "'g list option"
  resultLineList :: "'g list option"
  resultPointList :: "'g list option"
  resultGeom :: "'g option"
  other :: 'x

text \<open>
  The functions \<open>computeOverlay\<close> calls work on classes of \<open>geomgraph\<close>, \<open>noding\<close> and
  \<open>geom\<close> that are not part of the sources at hand. The embedding takes each of them as
  a computation on the overlay object, free to throw; \<open>checkValid\<close> reads the edges only.
  \<open>envelopeOf i\<close> is the envelope of argument geometry \<open>i\<close>, \<open>argGeometry i\<close> that
  geometry.
\<close>

record ('e, 'g, 'x, 'v) OverlayOp_calls =
  isFloating :: bool
  envelopeOf :: "nat \<Rightarrow> 'v"
  intersection :: "'v \<Rightarrow> 'v \<Rightarrow> 'v"
  CHECK_FOR_INTERRUPTS :: "(unit, ('e, 'g, 'x) OverlayOp) comp"
  copyPoints :: "nat \<Rightarrow> 'v option \<Rightarrow> (unit, ('e, 'g, 'x) OverlayOp) comp"
  computeSelfNodes :: "nat \<Rightarrow> 'v option \<Rightarrow> (unit, ('e, 'g, 'x) OverlayOp) comp"
  computeEdgeIntersections :: "'v option \<Rightarrow> (unit, ('e, 'g, 'x) OverlayOp) comp"
  computeSplitEdges :: "nat \<Rightarrow> 'e list \<Rightarrow> ('e list, ('e, 'g, 'x) OverlayOp) comp"
  insertUniqueEdges :: "'e list \<Rightarrow> 'v option \<Rightarrow> (unit, ('e, 'g, 'x) OverlayOp) comp"
  computeLabelsFromDepths :: "(unit, ('e, 'g, 'x) OverlayOp) comp"
  replaceCollapsedEdges :: "(unit, ('e, 'g, 'x) OverlayOp) comp"
  checkValid :: "'e list \<Rightarrow> exn option"
  graph_addEdges :: "'e list \<Rightarrow> (unit, ('e, 'g, 'x) OverlayOp) comp"
  computeLabelling :: "(unit, ('e, 'g, 'x) OverlayOp) comp"
  labelIncompleteNodes :: "(unit, ('e, 'g, 'x) OverlayOp) comp"
  findResultAreaEdges :: "OpCode \<Rightarrow> (unit, ('e, 'g, 'x) OverlayOp) comp"
  cancelDuplicateResultEdges :: "(unit, ('e, 'g, 'x) OverlayOp) comp"
  polyBuilder_polygons :: "('g list, ('e, 'g, 'x) OverlayOp) comp"
  lineBuilder_build :: "OpCode \<Rightarrow> ('g list, ('e, 'g, 'x) OverlayOp) comp"
  pointBuilder_build :: "OpCode \<Rightarrow> ('g list, ('e, 'g, 'x) OverlayOp) comp"
  elevate :: "'g \<Rightarrow> ('g, ('e, 'g, 'x) OverlayOp) comp"
  argGeometry :: "nat \<Rightarrow> 'g"
  geomFact :: "'g GeometryFactory"
  getDimension :: "'g \<Rightarrow> DimensionType"
  Dimension_False :: DimensionType

text \<open>The target envelope (the \<open>switch\<close> at the head of \<open>computeOverlay\<close>).\<close>

definition targetEnvelope :: "('e, 'g, 'x, 'v) OverlayOp_calls \<Rightarrow> OpCode \<Rightarrow> 'v option" where
  "targetEnvelope X opCode =
    (if isFloating X then
       (case opCode of
          opINTERSECTION \<Rightarrow> Some (intersection X (envelopeOf X 0) (envelopeOf X 1))
        | opDIFFERENCE \<Rightarrow> Some (envelopeOf X 0)
        | _ \<Rightarrow> None)
     else None)"

text \<open>
  From \<open>copyPoints\<close> to \<open>replaceCollapsedEdges\<close>: the input geometries are noded and the
  noded edges inserted into the edge list.
\<close>

definition nodeAndInsertEdges ::
  "('e, 'g, 'x, 'v) OverlayOp_calls \<Rightarrow> OpCode \<Rightarrow> (unit, ('e, 'g, 'x) OverlayOp) comp" where
  "nodeAndInsertEdges X opCode =
    (let env = targetEnvelope X opCode
     in seqc (seqs [copyPoints X 0 env, copyPoints X 1 env, CHECK_FOR_INTERRUPTS X,
                    computeSelfNodes X 0 env, CHECK_FOR_INTERRUPTS X,
                    computeSelfNodes X 1 env, CHECK_FOR_INTERRUPTS X,
                    computeEdgeIntersections X env, CHECK_FOR_INTERRUPTS X])
         (bindc (computeSplitEdges X 0 []) (\<lambda>base0.
          seqc (CHECK_FOR_INTERRUPTS X)
         (bindc (computeSplitEdges X 1 base0) (\<lambda>baseSplitEdges.
          seqs [CHECK_FOR_INTERRUPTS X,
                insertUniqueEdges X baseSplitEdges env,
                computeLabelsFromDepths X,
                replaceCollapsedEdges X,
                CHECK_FOR_INTERRUPTS X])))))"

text \<open>
  The \<open>try\<close> block around \<open>EdgeNodingValidator::checkValid\<close>: the handler catches a
  \<open>TopologyException\<close> only, clears the edge list and throws the exception again.
\<close>

definition validateNoding ::
  "('e, 'g, 'x, 'v) OverlayOp_calls \<Rightarrow> (unit, ('e, 'g, 'x) OverlayOp) comp" where
  "validateNoding X s =
    (case checkValid X (edgeList s) of
       None \<Rightarrow> (Inr (), s)
     | Some (TopologyException msg) \<Rightarrow> (Inl (TopologyException msg), s\<lparr>edgeList := []\<rparr>)
     | Some ex \<Rightarrow> (Inl ex, s))"

text \<open>From \<open>graph.addEdges\<close> to the end: labelling, and the result built from the graph.\<close>

definition buildResult ::
  "('e, 'g, 'x, 'v) OverlayOp_calls \<Rightarrow> OpCode \<Rightarrow> (unit, ('e, 'g, 'x) OverlayOp) comp" where
  "buildResult X opCode =
    seqc (seqs [CHECK_FOR_INTERRUPTS X,
                (\<lambda>s. graph_addEdges X (edgeList s) s),
                CHECK_FOR_INTERRUPTS X,
                computeLabelling X,
                labelIncompleteNodes X,
                CHECK_FOR_INTERRUPTS X,
                findResultAreaEdges X opCode,
                cancelDuplicateResultEdges X,
                CHECK_FOR_INTERRUPTS X])
   (bindc (polyBuilder_polygons X) (\<lambda>polys.
    seqc (\<lambda>s. (Inr (), s\<lparr>resultPolyList := Some polys\<rparr>))
   (bindc (lineBuilder_build X opCode) (\<lambda>lines.
    seqc (\<lambda>s. (Inr (), s\<lparr>resultLineList := Some lines\<rparr>))
   (bindc (pointBuilder_build X opCode) (\<lambda>points.
    seqc (\<lambda>s. (Inr (), s\<lparr>resultPointList := Some points,
                 resultGeom := Some (computeGeometry (Dimension_False X) (getDimension X) (geomFact X)
                    (argGeometry X 0) (argGeometry X 1) points lines polys opCode)\<rparr>))
   (bindc (\<lambda>s. case resultGeom s of
                  None \<Rightarrow> (Inl AssertionFailure, s)
                | Some g \<Rightarrow> elevate X g s) (\<lambda>g.
    (\<lambda>s. (Inr (), s\<lparr>resultGeom := Some g\<rparr>))))))))))"

definition computeOverlay ::
  "('e, 'g, 'x, 'v) OverlayOp_calls \<Rightarrow> OpCode \<Rightarrow> (unit, ('e, 'g, 'x) OverlayOp) comp" where
  "computeOverlay X opCode =
     seqc (nodeAndInsertEdges X opCode) (seqc (validateNoding X) (buildResult X opCode))"

subsection \<open>A factory and an overlay for the examples\<close>

text \<open>
  A geometry is a pair of a name and its dimension; the factory names what it creates,
  and builds from a vector the geometry of the names in a row and the largest dimension.
\<close>

definition nameFactory :: "(string \<times> int) GeometryFactory" where
  "nameFactory =
     \<lparr>createPoint = (''Point'', 0), createLineString = (''LineString'', 1),
      createPolygon = (''Polygon'', 2), createGeometryCollection = (''GeometryCollection'', -1),
      buildGeometry = (\<lambda>gs. (concat (map fst gs), fold max (map snd gs) (-1)))\<rparr>"

text \<open>
  An overlay where every call returns at once, but both argument graphs give the split edge
  \<open>5\<close>, the edge list receives the split edges as they are, and the validator refuses an
  edge list with a repeated edge.
\<close>

definition repeatedEdgeCalls :: "(nat, string \<times> int, unit, unit) OverlayOp_calls" where
  "repeatedEdgeCalls =
     \<lparr>isFloating = True, envelopeOf = (\<lambda>_. ()), intersection = (\<lambda>_ _. ()),
      CHECK_FOR_INTERRUPTS = returnc (),
      copyPoints = (\<lambda>_ _. returnc ()),
      computeSelfNodes = (\<lambda>_ _. returnc ()),
      computeEdgeIntersections = (\<lambda>_. returnc ()),
      computeSplitEdges = (\<lambda>_ acc. returnc (acc @ [5])),
      insertUniqueEdges = (\<lambda>es _ s. (Inr (), s\<lparr>edgeList := edgeList s @ es\<rparr>)),
      computeLabelsFromDepths = returnc (),
      replaceCollapsedEdges = returnc (),
      checkValid = (\<lambda>es. if distinct es then None
                          else Some (TopologyException ''found non-noded intersection'')),
      graph_addEdges = (\<lambda>_. returnc ()),
      computeLabelling = returnc (),
      labelIncompleteNodes = returnc (),
      findResultAreaEdges = (\<lambda>_. returnc ()),
      cancelDuplicateResultEdges = returnc (),
      polyBuilder_polygons = returnc [],
      lineBuilder_build = (\<lambda>_. returnc []),
      pointBuilder_build = (\<lambda>_. returnc []),
      elevate = returnc,
      argGeometry = (\<lambda>i. (''arg'', 2)),
      geomFact = nameFactory,
      getDimension = snd,
      Dimension_False = -1\<rparr>"

definition newOverlayOp :: "(nat, string \<times> int, unit) OverlayOp" where
  "newOverlayOp =
     \<lparr>edgeList = [], resultPolyList = None, resultLineList = None, resultPointList = None,
      resultGeom = None, other = ()\<rparr>"

section \<open>GEOS overlay: \<open>MaximalEdgeRing.cpp\<close>\<close>

text \<open>
  The class \<open>OverlayEdge\<close> is not part of the sources at hand. An edge is its address. The
  graph holds, for every edge, what \<open>linkResultAreaMaxRingAtNode\<close> reads through the
  edge: the next edge around its origin (\<open>oNextOE\<close>), the edge in the other direction
  (\<open>symOE\<close>), whether it is in the result area, and the pointer that \<open>nextResultMax()\<close>
  returns and \<open>setNextResultMax\<close> writes, with \<open>None\<close> for the null pointer. The
  embedding takes an edge to be linked (\<open>isResultMaxLinked\<close>) when that pointer is not
  null; \<open>attachEdges\<close> in the same file compares \<open>nextResultMax()\<close> with the null pointer
  to find an edge that was not linked.
\<close>

type_synonym OverlayEdge = nat

record OverlayGraph =
  oNextOE :: "OverlayEdge \<Rightarrow> OverlayEdge"
  symOE :: "OverlayEdge \<Rightarrow> OverlayEdge"
  isInResultArea :: "OverlayEdge \<Rightarrow> bool"
  nextResultMax :: "OverlayEdge \<Rightarrow> OverlayEdge option"

definition isResultMaxLinked :: "OverlayGraph \<Rightarrow> OverlayEdge \<Rightarrow> bool" where
  "isResultMaxLinked G e = (nextResultMax G e \<noteq> None)"

definition setNextResultMax :: "OverlayEdge \<Rightarrow> OverlayEdge \<Rightarrow> OverlayGraph \<Rightarrow> OverlayGraph" where
  "setNextResultMax e out G = G\<lparr>nextResultMax := (nextResultMax G)(e \<mapsto> out)\<rparr>"

text \<open>
  The two states of the scan, and the ways the \<open>do\<close> loop ends: by the \<open>return\<close> at
  its head, by its condition (in one of the two states), or by calling
  \<open>setNextResultMax\<close> through a null \<open>currResultIn\<close>.
\<close>

datatype link_state = STATE_FIND_INCOMING | STATE_LINK_OUTGOING

datatype loop_exit = EarlyReturn | ScanComplete link_state | NullResultIn




subsection \<open>The scan in terms of the graph\<close>

text \<open>
  \<open>out_edge_cycle G endOut c cs\<close>: following \<open>oNextOE\<close> from \<open>c\<close> one meets the edges
  \<open>cs\<close>, none of them \<open>endOut\<close>, and then \<open>endOut\<close>. With \<open>c\<close> the edge \<open>endOut\<close>
  itself, \<open>endOut # cs\<close> are the out-edges around the node in the order the loop visits
  them.
\<close>

fun out_edge_cycle :: "OverlayGraph \<Rightarrow> OverlayEdge \<Rightarrow> OverlayEdge \<Rightarrow> OverlayEdge list \<Rightarrow> bool" where
  "out_edge_cycle G endOut c [] = (oNextOE G c = endOut)"
| "out_edge_cycle G endOut c (d # ds) =
     (oNextOE G c = d \<and> d \<noteq> endOut \<and> out_edge_cycle G endOut d ds)"

text \<open>
  The out-edges from the first one whose opposite edge, an in-edge of the node, is in the
  result area; and the out-edges from the first one that is in the result area itself.
\<close>

definition from_first_incoming :: "OverlayGraph \<Rightarrow> OverlayEdge list \<Rightarrow> OverlayEdge list" where
  "from_first_incoming G es = dropWhile (\<lambda>out. \<not> isInResultArea G (symOE G out)) es"

definition from_next_outgoing :: "OverlayGraph \<Rightarrow> OverlayEdge list \<Rightarrow> OverlayEdge list" where
  "from_next_outgoing G es = dropWhile (\<lambda>out. \<not> isInResultArea G out) es"

text \<open>
  What the scan of the out-edges \<open>es\<close> has to give. Without an in-edge in the result
  area nothing happens. The first such in-edge is the one the scan holds. Found at the
  last out-edge, it is still waiting when the scan completes. Found earlier and linked
  already, it makes the loop return at once. Otherwise it is linked to the first out-edge
  in the result area among the out-edges that follow, and the loop returns at the next
  out-edge, if there is one; without such an out-edge it is still waiting when the scan
  completes. \<open>node_result\<close> is what the function gives for the scan: the exception for
  an in-edge still waiting.
\<close>

definition link_result :: "OverlayGraph \<Rightarrow> OverlayEdge \<Rightarrow> OverlayEdge list \<Rightarrow> loop_exit \<times> OverlayGraph" where
  "link_result G e es =
    (case from_next_outgoing G es of
       [] \<Rightarrow> (ScanComplete STATE_LINK_OUTGOING, G)
     | out # rest \<Rightarrow>
         (if rest = [] then ScanComplete STATE_FIND_INCOMING else EarlyReturn,
          setNextResultMax e out G))"

definition scan_result :: "OverlayGraph \<Rightarrow> OverlayEdge list \<Rightarrow> loop_exit \<times> OverlayGraph" where
  "scan_result G es =
    (case from_first_incoming G es of
       [] \<Rightarrow> (ScanComplete STATE_FIND_INCOMING, G)
     | out # after \<Rightarrow>
         if after = [] then (ScanComplete STATE_LINK_OUTGOING, G)
         else if isResultMaxLinked G (symOE G out) then (EarlyReturn, G)
         else link_result G (symOE G out) after)"


subsection \<open>A node for the examples\<close>


section \<open>PostGIS: \<open>lwgeom_inout.cpp\<close>\<close>

text \<open>
  The input is a C string: the characters before its terminating \<open>NUL\<close>. \<open>char_at s i\<close>
  is the character at index \<open>i\<close>, the terminator at the index \<open>length s\<close>. A read beyond
  the terminator leaves the string: it is the fault \<open>ReadPastTerminator\<close>.
\<close>

datatype fault = ReadPastTerminator

definition NUL :: char where
  "NUL = CHR 0x00"

definition char_at :: "string \<Rightarrow> nat \<Rightarrow> char" where
  "char_at s i = (if i < length s then s ! i else NUL)"

text \<open>
  \<open>strncasecmp(s1, s2, n) == 0\<close>: the first \<open>n\<close> characters of the two strings, or
  the whole strings when they are shorter, are equal up to the case of the letters
  \<open>A\<close> to \<open>Z\<close>.
\<close>

definition tolower :: "char \<Rightarrow> char" where
  "tolower c =
    (let n = (of_char c :: nat)
     in if of_char CHR ''A'' \<le> n \<and> n \<le> of_char CHR ''Z'' then char_of (n + 32) else c)"

definition strncasecmp_eq :: "string \<Rightarrow> string \<Rightarrow> nat \<Rightarrow> bool" where
  "strncasecmp_eq s1 s2 n = (map tolower (take n s1) = map tolower (take n s2))"

text \<open>
  The loop \<open>while (tmp && *tmp != ';') tmp++\<close>, started at the head of the string: the
  index of the first \<open>;\<close>. The pointer \<open>tmp\<close> is never null, so the loop does not stop at
  the terminator: without a \<open>;\<close> it leaves the string (\<open>None\<close>).
\<close>

fun scan_semicolon :: "string \<Rightarrow> nat option" where
  "scan_semicolon [] = None"
| "scan_semicolon (c # cs) =
     (if c = CHR '';'' then Some 0 else map_option Suc (scan_semicolon cs))"


text \<open>
  The functions of liblwgeom and of the C library that \<open>LWGEOM_in\<close> calls are not part of
  the sources at hand; the embedding takes them as the fields of \<open>api\<close>. A parser gives
  the geometry or the null pointer (\<open>None\<close>); \<open>lwgeom_parse_wkt\<close> gives whether it
  returned other than \<open>LW_FAILURE\<close>, and the geometry in its result.
\<close>

record ('g, 's, 'w) lwgeom_api =
  atoi :: "string \<Rightarrow> int"
  bytes_from_hexbytes :: "string \<Rightarrow> nat \<Rightarrow> 'w"
  lwgeom_from_wkb :: "'w \<Rightarrow> nat \<Rightarrow> 'g option"
  lwgeom_from_geojson :: "string \<Rightarrow> 'g option"
  lwgeom_parse_wkt :: "string \<Rightarrow> bool \<times> 'g option"
  lwgeom_set_srid :: "'g \<Rightarrow> int \<Rightarrow> 'g"
  lwgeom_needs_bbox :: "'g \<Rightarrow> bool"
  lwgeom_add_bbox :: "'g \<Rightarrow> 'g"
  geometry_serialize :: "'g \<Rightarrow> 's"

text \<open>
  The head of \<open>LWGEOM_in\<close>: the string \<open>str\<close> to parse and the \<open>srid\<close>. The number is
  read by \<open>atoi\<close> from the input cut at the \<open>;\<close>, past the five characters of \<open>SRID=\<close>.
\<close>

definition srid_prefix :: "('g, 's, 'w) lwgeom_api \<Rightarrow> string \<Rightarrow> fault + string \<times> int" where
  "srid_prefix api input =
    (if strncasecmp_eq input ''SRID='' 5 then
       (case scan_semicolon input of
          None \<Rightarrow> Inl ReadPastTerminator
        | Some tmp \<Rightarrow>
            (if char_at input (tmp + 1) = CHR ''0''
             then Inr (drop (tmp + 1) input, atoi api (take (tmp - 5) (drop 5 input)))
             else Inr (input, 0)))
     else Inr (input, 0))"

definition with_bbox :: "('g, 's, 'w) lwgeom_api \<Rightarrow> 'g \<Rightarrow> 'g" where
  "with_bbox api lwgeom = (if lwgeom_needs_bbox api lwgeom then lwgeom_add_bbox api lwgeom else lwgeom)"

definition LWGEOM_in :: "('g, 's, 'w) lwgeom_api \<Rightarrow> string \<Rightarrow> fault + 's option" where
  "LWGEOM_in api input =
    (case srid_prefix api input of
       Inl f \<Rightarrow> Inl f
     | Inr (str, srid) \<Rightarrow>
         Inr (if char_at str 0 = CHR ''0'' then
                (let hexsize = length str;
                     wkb = bytes_from_hexbytes api str hexsize
                 in case lwgeom_from_wkb api wkb (hexsize div 2) of
                      None \<Rightarrow> None
                    | Some lwgeom \<Rightarrow>
                        Some (geometry_serialize api
                               (with_bbox api
                                 (if srid \<noteq> 0 then lwgeom_set_srid api lwgeom srid else lwgeom))))
              else if char_at str 0 = CHR ''{'' then
                (case lwgeom_from_geojson api str of
                   None \<Rightarrow> None
                 | Some lwgeom \<Rightarrow> Some (geometry_serialize api lwgeom))
              else
                (case lwgeom_parse_wkt api str of
                   (False, _) \<Rightarrow> None
                 | (True, None) \<Rightarrow> None
                 | (True, Some lwgeom) \<Rightarrow> Some (geometry_serialize api (with_bbox api lwgeom)))))"

text \<open>
  The reading of the claim: the format is decided by the first character; the header to
  strip is \<open>SRID=\<close>, in any case, up to the first \<open>;\<close>, when hex WKB follows; the parser
  is chosen by the format, and \<open>finish\<close> makes the serialized result from its geometry.
  \<open>finish\<close> applies the SRID as the code does, when it is not 0; \<open>finish_as_claimed\<close>
  applies it always.
\<close>

datatype input_format = HexWKB | GeoJSON | WKT

definition format_of :: "string \<Rightarrow> input_format" where
  "format_of str =
    (case str of
       [] \<Rightarrow> WKT
     | c # _ \<Rightarrow> if c = CHR ''0'' then HexWKB else if c = CHR ''{'' then GeoJSON else WKT)"

definition wkb_header :: "string \<Rightarrow> (string \<times> string) option" where
  "wkb_header input =
    (let rest = drop 1 (dropWhile (\<lambda>c. c \<noteq> CHR '';'') input)
     in if strncasecmp_eq input ''SRID='' 5 \<and> CHR '';'' \<in> set input \<and> format_of rest = HexWKB
        then Some (takeWhile (\<lambda>c. c \<noteq> CHR '';'') (drop 5 input), rest)
        else None)"

definition payload :: "string \<Rightarrow> string" where
  "payload input = (case wkb_header input of None \<Rightarrow> input | Some (n, rest) \<Rightarrow> rest)"

definition header_srid :: "('g, 's, 'w) lwgeom_api \<Rightarrow> string \<Rightarrow> int" where
  "header_srid api input = (case wkb_header input of None \<Rightarrow> 0 | Some (n, rest) \<Rightarrow> atoi api n)"

definition chosen_parser :: "('g, 's, 'w) lwgeom_api \<Rightarrow> string \<Rightarrow> 'g option" where
  "chosen_parser api str =
    (case format_of str of
       HexWKB \<Rightarrow> lwgeom_from_wkb api (bytes_from_hexbytes api str (length str)) (length str div 2)
     | GeoJSON \<Rightarrow> lwgeom_from_geojson api str
     | WKT \<Rightarrow> (case lwgeom_parse_wkt api str of (True, g) \<Rightarrow> g | (False, _) \<Rightarrow> None))"

definition finish :: "('g, 's, 'w) lwgeom_api \<Rightarrow> input_format \<Rightarrow> int \<Rightarrow> 'g \<Rightarrow> 's" where
  "finish api fmt srid g =
    (case fmt of
       HexWKB \<Rightarrow> geometry_serialize api (with_bbox api (if srid = 0 then g else lwgeom_set_srid api g srid))
     | GeoJSON \<Rightarrow> geometry_serialize api g
     | WKT \<Rightarrow> geometry_serialize api (with_bbox api g))"

definition finish_as_claimed :: "('g, 's, 'w) lwgeom_api \<Rightarrow> input_format \<Rightarrow> int \<Rightarrow> 'g \<Rightarrow> 's" where
  "finish_as_claimed api fmt srid g =
    (case fmt of
       HexWKB \<Rightarrow> geometry_serialize api (with_bbox api (lwgeom_set_srid api g srid))
     | GeoJSON \<Rightarrow> geometry_serialize api g
     | WKT \<Rightarrow> geometry_serialize api (with_bbox api g))"

subsection \<open>Parsers for the examples\<close>

text \<open>
  A geometry is its type name, its SRID and whether it has a bounding box, and so is its
  serialized form. The WKB parser knows the hex form of a point without an SRID and of a
  point with the SRID 4326 (\<open>E6100000\<close>); the WKT parser knows a point, with or without an
  SRID header; points need no bounding box.
\<close>

definition decimal :: "string \<Rightarrow> int" where
  "decimal s =
     foldl (\<lambda>a c. 10 * a + (int (of_char c) - 48)) 0
       (takeWhile (\<lambda>c. 48 \<le> (of_char c :: nat) \<and> (of_char c :: nat) \<le> 57) s)"

definition sketch_api :: "(string \<times> int \<times> bool, string \<times> int \<times> bool, string) lwgeom_api" where
  \<open>sketch_api =
     \<lparr>atoi = decimal,
      bytes_from_hexbytes = (\<lambda>s n. take n s),
      lwgeom_from_wkb = (\<lambda>w n.
         if take 18 w = ''0101000020E6100000'' then Some (''POINT'', 4326, False)
         else if take 10 w = ''0101000000'' then Some (''POINT'', 0, False)
         else None),
      lwgeom_from_geojson = (\<lambda>s. if take 7 s = ''{"type"'' then Some (''GEOJSON'', 4326, False) else None),
      lwgeom_parse_wkt = (\<lambda>s.
         if take 5 s = ''POINT'' then (True, Some (''POINT'', 0, False))
         else if take 5 (drop 1 (dropWhile (\<lambda>c. c \<noteq> CHR '';'') s)) = ''POINT''
           then (True, Some (''POINT'', decimal (drop 5 s), False))
         else (False, None)),
      lwgeom_set_srid = (\<lambda>g n. (fst g, n, snd (snd g))),
      lwgeom_needs_bbox = (\<lambda>g. fst g \<noteq> ''POINT''),
      lwgeom_add_bbox = (\<lambda>g. (fst g, fst (snd g), True)),
      geometry_serialize = (\<lambda>g. g)\<rparr>\<close>

definition srid0_ewkb :: string where
  "srid0_ewkb = ''SRID=0;0101000020E6100000000000000000F03F000000000000F03F''"

definition srid_wkb :: string where
  "srid_wkb = ''srid=4326;0101000000000000000000F03F000000000000F03F''"

definition geojson_point :: string where
  \<open>geojson_point = ''{"type":"Point","coordinates":[1,1]}''\<close>

definition ewkt_point :: string where
  "ewkt_point = ''SRID=4326;POINT(1 1)''"

section \<open>PostGIS: \<open>geography_measurement_trees.cpp\<close>\<close>

text \<open>
  The functions of liblwgeom that the two functions call, and the constants they use, are
  not part of the sources at hand: they are the fields of \<open>X\<close>. The values of type
  \<open>double\<close> are passed on and never computed with: they are of an arbitrary type \<open>'d\<close>,
  and \<open>double_zero\<close> is the value \<open>0.0\<close>. A point is its \<open>x\<close> and \<open>y\<close>. A function that
  fills a result through a pointer takes the content before the call and gives the
  content after it, next to the \<open>int\<close> it returns when the code looks at that.
  \<open>geog2cart_of x y\<close> is \<open>geographic_point_init\<close> followed by \<open>geog2cart\<close>. What
  \<open>lwerror\<close> does after reporting depends on the handler installed: \<open>lwerror_returns\<close>
  says whether it comes back; if not, the call is left by an exception.
\<close>

type_synonym 'd POINT2D = "'d \<times> 'd"

record ('gs, 'lw, 't, 'box, 'p3, 'sph, 'd) geodetic_calls =
  LW_FALSE :: int
  LW_SUCCESS :: int
  LW_FAILURE :: int
  POLYGONTYPE :: int
  MULTIPOLYGONTYPE :: int
  double_zero :: 'd
  lwerror_returns :: bool
  gserialized_get_type :: "'gs \<Rightarrow> int"
  gserialized_get_gbox_p :: "'gs \<Rightarrow> 'box \<Rightarrow> int \<times> 'box"
  lwgeom_from_gserialized :: "'gs \<Rightarrow> 'lw"
  lwgeom_calculate_gbox_geodetic :: "'lw \<Rightarrow> 'box \<Rightarrow> 'box"
  geog2cart_of :: "'d \<Rightarrow> 'd \<Rightarrow> 'p3"
  gbox_contains_point3d :: "'box \<Rightarrow> 'p3 \<Rightarrow> int"
  gbox_pt_outside :: "'box \<Rightarrow> 'd POINT2D \<Rightarrow> int \<times> 'd POINT2D"
  circ_tree_get_point_outside :: "'t \<Rightarrow> 'd POINT2D \<Rightarrow> int \<times> 'd POINT2D"
  circ_tree_contains_point :: "'t \<Rightarrow> 'd POINT2D \<Rightarrow> 'd POINT2D \<Rightarrow> int"
  lwgeom_calculate_circ_tree :: "'lw \<Rightarrow> 't"
  lwgeom_startpoint :: "'lw \<Rightarrow> 'd POINT2D \<Rightarrow> 'd POINT2D"
  circ_tree_distance_tree :: "'t \<Rightarrow> 't \<Rightarrow> 'sph \<Rightarrow> 'd \<Rightarrow> 'd"

text \<open>
  Local variables are not initialised: they start with what the stack holds, given as
  \<open>stack_pt1\<close> and \<open>stack_pt2\<close> for \<open>pt1\<close> and \<open>pt2\<close>, and as a frame with \<open>gbox1\<close> and
  \<open>pt2d_outside\<close> for each of the two calls of \<open>CircTreePIP\<close>.
\<close>

record ('box, 'd) PIP_frame =
  frame_gbox1 :: 'box
  frame_pt2d_outside :: "'d POINT2D"

definition CircTreePIP ::
  "('gs, 'lw, 't, 'box, 'p3, 'sph, 'd) geodetic_calls \<Rightarrow> ('box, 'd) PIP_frame \<Rightarrow> 't \<Rightarrow> 'gs \<Rightarrow> 'd POINT2D
     \<Rightarrow> exn + int" where
  "CircTreePIP X frame tree1 g1 in_point =
    (let tree1_type = gserialized_get_type X g1
     in if tree1_type = POLYGONTYPE X \<or> tree1_type = MULTIPOLYGONTYPE X then
          (let (got, gbox0) = gserialized_get_gbox_p X g1 (frame_gbox1 frame);
               gbox1 = (if LW_FAILURE X = got
                        then lwgeom_calculate_gbox_geodetic X (lwgeom_from_gserialized X g1) gbox0
                        else gbox0);
               in_point3d = geog2cart_of X (fst in_point) (snd in_point)
           in if gbox_contains_point3d X gbox1 in_point3d = 0 then Inr (LW_FALSE X)
              else (let pt2d_inside = (fst in_point, snd in_point);
                        (r1, outside1) = gbox_pt_outside X gbox1 (frame_pt2d_outside frame)
                    in if r1 = LW_FAILURE X then
                         (let (r2, outside2) = circ_tree_get_point_outside X tree1 outside1
                          in if r2 = LW_FAILURE X \<and> \<not> lwerror_returns X
                             then Inl (OtherException ''CircTreePIP: Unable to generate outside point!'')
                             else Inr (circ_tree_contains_point X tree1 pt2d_inside outside2))
                       else Inr (circ_tree_contains_point X tree1 pt2d_inside outside1)))
        else Inr (LW_FALSE X))"

definition geography_tree_distance ::
  "('gs, 'lw, 't, 'box, 'p3, 'sph, 'd) geodetic_calls \<Rightarrow> 'd POINT2D \<Rightarrow> 'd POINT2D
     \<Rightarrow> ('box, 'd) PIP_frame \<Rightarrow> ('box, 'd) PIP_frame
     \<Rightarrow> 'gs \<Rightarrow> 'gs \<Rightarrow> 'sph \<Rightarrow> 'd \<Rightarrow> exn + int \<times> 'd" where
  "geography_tree_distance X stack_pt1 stack_pt2 frame1 frame2 g1 g2 s tolerance =
    (let lwgeom1 = lwgeom_from_gserialized X g1;
         lwgeom2 = lwgeom_from_gserialized X g2;
         circ_tree1 = lwgeom_calculate_circ_tree X lwgeom1;
         circ_tree2 = lwgeom_calculate_circ_tree X lwgeom2;
         pt1 = lwgeom_startpoint X lwgeom1 stack_pt1;
         pt2 = lwgeom_startpoint X lwgeom2 stack_pt2
     in case CircTreePIP X frame1 circ_tree1 g1 pt2 of
          Inl ex \<Rightarrow> Inl ex
        | Inr in1 \<Rightarrow>
            if in1 \<noteq> 0 then Inr (LW_SUCCESS X, double_zero X)
            else (case CircTreePIP X frame2 circ_tree2 g2 pt1 of
                    Inl ex \<Rightarrow> Inl ex
                  | Inr in2 \<Rightarrow>
                      if in2 \<noteq> 0 then Inr (LW_SUCCESS X, double_zero X)
                      else Inr (LW_SUCCESS X,
                                circ_tree_distance_tree X circ_tree1 circ_tree2 s tolerance)))"

text \<open>
  The words of the claim: the start point of an input and its tree; a point lies inside
  an input when \<open>CircTreePIP\<close> returns other than 0 for it; \<open>pip_aborts\<close> when
  \<open>CircTreePIP\<close> does not return.
\<close>

definition start_point :: "('gs, 'lw, 't, 'box, 'p3, 'sph, 'd) geodetic_calls \<Rightarrow> 'd POINT2D \<Rightarrow> 'gs \<Rightarrow> 'd POINT2D" where
  "start_point X stack_pt g = lwgeom_startpoint X (lwgeom_from_gserialized X g) stack_pt"

definition tree_of :: "('gs, 'lw, 't, 'box, 'p3, 'sph, 'd) geodetic_calls \<Rightarrow> 'gs \<Rightarrow> 't" where
  "tree_of X g = lwgeom_calculate_circ_tree X (lwgeom_from_gserialized X g)"

definition lies_inside ::
  "('gs, 'lw, 't, 'box, 'p3, 'sph, 'd) geodetic_calls \<Rightarrow> ('box, 'd) PIP_frame \<Rightarrow> 'd POINT2D \<Rightarrow> 'gs \<Rightarrow> bool" where
  "lies_inside X frame p g =
     (case CircTreePIP X frame (tree_of X g) g p of Inl ex \<Rightarrow> False | Inr r \<Rightarrow> r \<noteq> 0)"

definition pip_aborts ::
  "('gs, 'lw, 't, 'box, 'p3, 'sph, 'd) geodetic_calls \<Rightarrow> ('box, 'd) PIP_frame \<Rightarrow> 'd POINT2D \<Rightarrow> 'gs \<Rightarrow> bool" where
  "pip_aborts X frame p g =
     (case CircTreePIP X frame (tree_of X g) g p of Inl ex \<Rightarrow> True | Inr r \<Rightarrow> False)"

subsection \<open>A geometry library for the examples\<close>

text \<open>
  Integers stand for the doubles. An input is its type and its start point; a box is the
  largest coordinate in it; the only polygon is the square of the points with coordinates
  up to 5, in the box 10; the distance of two trees is the distance of their start points
  along the axes.
\<close>

definition plane_calls ::
  "(int \<times> int \<times> int, int \<times> int \<times> int, int \<times> int \<times> int, int, int \<times> int, unit, int) geodetic_calls" where
  "plane_calls =
     \<lparr>LW_FALSE = 0, LW_SUCCESS = 1, LW_FAILURE = 0, POLYGONTYPE = 3, MULTIPOLYGONTYPE = 6,
      double_zero = 0, lwerror_returns = False,
      gserialized_get_type = fst,
      gserialized_get_gbox_p = (\<lambda>g b. (1, 10)),
      lwgeom_from_gserialized = (\<lambda>g. g),
      lwgeom_calculate_gbox_geodetic = (\<lambda>lw b. 10),
      geog2cart_of = Pair,
      gbox_contains_point3d = (\<lambda>b p. if \<bar>fst p\<bar> \<le> b \<and> \<bar>snd p\<bar> \<le> b then 1 else 0),
      gbox_pt_outside = (\<lambda>b out. (1, (b + 1, b + 1))),
      circ_tree_get_point_outside = (\<lambda>t out. (0, out)),
      circ_tree_contains_point = (\<lambda>t p out. if \<bar>fst p\<bar> \<le> 5 \<and> \<bar>snd p\<bar> \<le> 5 then 1 else 0),
      lwgeom_calculate_circ_tree = (\<lambda>lw. lw),
      lwgeom_startpoint = (\<lambda>lw stack. snd lw),
      circ_tree_distance_tree = (\<lambda>t1 t2 s tol.
         \<bar>fst (snd t1) - fst (snd t2)\<bar> + \<bar>snd (snd t1) - snd (snd t2)\<bar>)\<rparr>"

definition no_frame :: "(int, int) PIP_frame" where
  "no_frame = \<lparr>frame_gbox1 = 0, frame_pt2d_outside = (0, 0)\<rparr>"

section \<open>The buffered reader: \<open>file_reader.cpp\<close>\<close>

text \<open>
  \<open>BaseReader\<close> keeps a character array \<open>m_buffer\<close> of \<open>buf_size\<close> elements and two
  pointers into it. The embedding keeps the array as a list, whose length is
  \<open>buf_size\<close>, and each pointer as its offset from \<open>m_buffer\<close>. The counter
  \<open>m_cnt_read\<close> and the result of \<open>tell\<close> are \<open>size_t\<close> values, 64-bit words that wrap
  around. \<open>m_handle\<close> is the state of the underlying file, which only the virtual
  functions \<open>do_open\<close>, \<open>do_close\<close> and \<open>do_read\<close> touch. The header
  \<open>file_reader.h\<close>, which declares the members, is not part of the sources at hand: the
  counter is taken to have the type \<open>tell\<close> returns, and \<open>buf_size\<close> to be the number of
  elements of the array.
\<close>

type_synonym size_t = "64 word"

record 'h BaseReader =
  m_buffer :: "char list"
  m_read_pos :: nat
  m_read_end :: nat
  m_cnt_read :: size_t
  m_handle :: 'h

definition buf_size :: "'h BaseReader \<Rightarrow> nat" where
  "buf_size r = length (m_buffer r)"

text \<open>
  The virtual \<open>do_read(buffer, size)\<close> is a parameter \<open>dr\<close> of the embedding:
  \<open>dr h n = (ret, data, h')\<close> gives the \<open>int\<close> it returns, the characters it has
  written to the start of the destination, and the next state of the file.
  \<open>store data buf\<close> is the array \<open>buf\<close> after \<open>data\<close> has been written to its start.
\<close>

type_synonym 'h do_read = "'h \<Rightarrow> nat \<Rightarrow> int \<times> char list \<times> 'h"

definition store :: "char list \<Rightarrow> char list \<Rightarrow> char list" where
  "store data buf = data @ drop (length data) buf"

definition open_reader :: "('h \<Rightarrow> bool \<times> 'h) \<Rightarrow> 'h BaseReader \<Rightarrow> bool \<times> 'h BaseReader" where
  "open_reader do_open r =
    (let r1 = r\<lparr>m_read_pos := buf_size r, m_read_end := buf_size r, m_cnt_read := 0\<rparr>;
         (ok, h') = do_open (m_handle r1)
     in (ok, r1\<lparr>m_handle := h'\<rparr>))"

definition close_reader :: "('h \<Rightarrow> 'h) \<Rightarrow> 'h BaseReader \<Rightarrow> 'h BaseReader" where
  "close_reader do_close r =
    (let r1 = r\<lparr>m_handle := do_close (m_handle r)\<rparr>
     in r1\<lparr>m_read_pos := buf_size r1, m_read_end := buf_size r1, m_cnt_read := 0\<rparr>)"

definition underflow :: "'h do_read \<Rightarrow> 'h BaseReader \<Rightarrow> bool \<times> 'h BaseReader" where
  "underflow dr r =
    (if m_read_pos r \<ge> m_read_end r then
       (case dr (m_handle r) (buf_size r) of (sz, data, h') \<Rightarrow>
          (let r1 = r\<lparr>m_buffer := store data (m_buffer r), m_handle := h'\<rparr>
           in if sz \<le> 0 then (False, r1)
              else (True, r1\<lparr>m_cnt_read := m_cnt_read r1 + word_of_int sz,
                              m_read_end := nat sz,
                              m_read_pos := 0\<rparr>)))
     else (True, r))"

text \<open>
  The loop of \<open>skip_prefix\<close> over the characters of the prefix: \<open>None\<close> when it leaves
  through the \<open>return\<close> in its body, the position after the prefix otherwise.
\<close>

fun skip_loop :: "char list \<Rightarrow> nat \<Rightarrow> nat \<Rightarrow> string \<Rightarrow> nat option" where
  "skip_loop buf read_end pos [] = Some pos"
| "skip_loop buf read_end pos (c # cs) =
     (if pos \<ge> read_end \<or> buf ! pos \<noteq> c then None
      else skip_loop buf read_end (pos + 1) cs)"

definition skip_prefix :: "'h do_read \<Rightarrow> string \<Rightarrow> 'h BaseReader \<Rightarrow> 'h BaseReader" where
  "skip_prefix dr prefix r =
    (case underflow dr r of
       (False, r1) \<Rightarrow> r1
     | (True, r1) \<Rightarrow>
         (case skip_loop (m_buffer r1) (m_read_end r1) (m_read_pos r1) prefix of
            None \<Rightarrow> r1\<lparr>m_read_pos := 0\<rparr>
          | Some p \<Rightarrow> r1\<lparr>m_read_pos := p\<rparr>))"

text \<open>
  \<open>next_char\<close> and \<open>peek\<close> return \<open>true\<close> together with the character they store in
  their reference argument (\<open>Some c\<close>), or \<open>false\<close> (\<open>None\<close>).
\<close>

definition next_char :: "'h do_read \<Rightarrow> 'h BaseReader \<Rightarrow> char option \<times> 'h BaseReader" where
  "next_char dr r =
    (case underflow dr r of
       (False, r1) \<Rightarrow> (None, r1)
     | (True, r1) \<Rightarrow> (Some (m_buffer r1 ! m_read_pos r1), r1\<lparr>m_read_pos := m_read_pos r1 + 1\<rparr>))"

definition peek :: "'h do_read \<Rightarrow> 'h BaseReader \<Rightarrow> char option \<times> 'h BaseReader" where
  "peek dr r =
    (case underflow dr r of
       (False, r1) \<Rightarrow> (None, r1)
     | (True, r1) \<Rightarrow> (Some (m_buffer r1 ! m_read_pos r1), r1))"

definition check_next_char :: "'h do_read \<Rightarrow> char \<Rightarrow> 'h BaseReader \<Rightarrow> bool \<times> 'h BaseReader" where
  "check_next_char dr c r =
    (case underflow dr r of
       (False, r1) \<Rightarrow> (False, r1)
     | (True, r1) \<Rightarrow>
         (if m_buffer r1 ! m_read_pos r1 \<noteq> c then (False, r1)
          else (True, r1\<lparr>m_read_pos := m_read_pos r1 + 1\<rparr>)))"

text \<open>
  \<open>read(buffer, size)\<close>, with \<open>nbytes\<close> for its argument \<open>size\<close>, gives its return
  value, the characters written to the caller's buffer from its start, and the reader. \<open>from_buffer\<close> is the number of characters it
  takes from the internal buffer.
\<close>

definition from_buffer :: "'h BaseReader \<Rightarrow> nat \<Rightarrow> nat" where
  "from_buffer r nbytes =
    (let in_buffer = m_read_end r - m_read_pos r
     in if in_buffer > 0 then min nbytes in_buffer else 0)"

definition read :: "'h do_read \<Rightarrow> 'h BaseReader \<Rightarrow> nat \<Rightarrow> size_t \<times> char list \<times> 'h BaseReader" where
  "read dr r nbytes =
    (let n = from_buffer r nbytes;
         copied = take n (drop (m_read_pos r) (m_buffer r));
         r1 = r\<lparr>m_read_pos := m_read_pos r + n\<rparr>
     in case dr (m_handle r1) (nbytes - n) of (from_file, data, h') \<Rightarrow>
          (let r2 = r1\<lparr>m_handle := h'\<rparr>
           in if from_file < 0 then (0, copied @ data, r2)
              else (of_nat n + word_of_int from_file, copied @ data,
                    r2\<lparr>m_cnt_read := m_cnt_read r2 + word_of_int from_file\<rparr>)))"

text \<open>
  \<open>tell\<close>: the pointer difference is a signed value, converted to \<open>size_t\<close> by the
  subtraction.
\<close>

definition tell :: "'h BaseReader \<Rightarrow> size_t" where
  "tell r = m_cnt_read r - word_of_int (int (m_read_end r) - int (m_read_pos r))"

text \<open>
  The pointers of a reader: the read position is never behind the end of the buffered
  characters, which is never behind the end of the array, so that every character read
  at the read position before that end is an element of the array. The functions above keep it so,
  given a \<open>do_read\<close> that writes and reports no more than it was asked for, and reports
  what it has written.
\<close>

definition reader_inv :: "'h BaseReader \<Rightarrow> bool" where
  "reader_inv r = (m_read_pos r \<le> m_read_end r \<and> m_read_end r \<le> buf_size r)"

definition do_read_ok :: "'h do_read \<Rightarrow> bool" where
  "do_read_ok dr =
    (\<forall>h n. case dr h n of (ret, data, h') \<Rightarrow>
       length data \<le> n \<and> ret \<le> int n \<and> (0 \<le> ret \<longrightarrow> length data = nat ret))"

text \<open>
  The constructor leaves both pointers at the end of the array, whose content \<open>buf\<close> it
  does not initialise, and the counter at zero.
\<close>

definition BaseReader_init :: "char list \<Rightarrow> 'h \<Rightarrow> 'h BaseReader" where
  "BaseReader_init buf h =
     \<lparr>m_buffer = buf, m_read_pos = length buf, m_read_end = length buf, m_cnt_read = 0, m_handle = h\<rparr>"

text \<open>The characters of the internal buffer that have not been read yet.\<close>

definition buffered :: "'h BaseReader \<Rightarrow> char list" where
  "buffered r = drop (m_read_pos r) (take (m_read_end r) (m_buffer r))"

subsection \<open>A file for the examples\<close>

text \<open>
  A file with the content still to be read and the number of calls of \<open>do_read\<close> that
  will succeed: each call gives as many characters as it is asked for, while there are
  any, and the calls after the last successful one return \<open>-1\<close>. \<open>hello\<close> is a new
  reader on such a file with a buffer of four characters, \<open>hello1\<close> and \<open>hello0\<close> are
  readers after the first character has been read.
\<close>

definition flaky_read :: "(string \<times> nat) do_read" where
  "flaky_read h n =
    (case h of (content, k) \<Rightarrow>
       if k = 0 then (-1, [], h)
       else (int (length (take n content)), take n content, (drop n content, k - 1)))"

definition hello :: "(string \<times> nat) BaseReader" where
  "hello = BaseReader_init ''????'' (''hello world'', 2)"

definition hello1 :: "(string \<times> nat) BaseReader" where
  "hello1 = \<lparr>m_buffer = ''hell'', m_read_pos = 1, m_read_end = 4, m_cnt_read = 4,
             m_handle = (''o world'', 1)\<rparr>"

definition hello0 :: "(string \<times> nat) BaseReader" where
  "hello0 = \<lparr>m_buffer = ''hell'', m_read_pos = 1, m_read_end = 4, m_cnt_read = 4,
             m_handle = (''o world'', 0)\<rparr>"

chapter \<open>Properties\<close>

section \<open>Overlay result rule\<close>

text \<open>
  C1. With \<open>BOUNDARY\<close> counted as \<open>INTERIOR\<close>, \<open>isResultOfOp\<close> follows the boolean set
  rule of the operation: for an intersection both locations are interior, for a union at
  least one is, for a difference the first is and the second is not, for a symmetric
  difference exactly one is; for any other operation code the answer is false.
\<close>

theorem isResultOfOp_set_rule:
  fixes loc0 loc1 :: Location
  defines "in0 \<equiv> (if loc0 = BOUNDARY then INTERIOR else loc0) = INTERIOR"
      and "in1 \<equiv> (if loc1 = BOUNDARY then INTERIOR else loc1) = INTERIOR"
  shows "isResultOfOp loc0 loc1 opINTERSECTION = (in0 \<and> in1)
       \<and> isResultOfOp loc0 loc1 opUNION = (in0 \<or> in1)
       \<and> isResultOfOp loc0 loc1 opDIFFERENCE = (in0 \<and> \<not> in1)
       \<and> isResultOfOp loc0 loc1 opSYMDIFFERENCE = (in0 \<noteq> in1)
       \<and> isResultOfOp loc0 loc1 (opOther n) = False"
  unfolding in0_def in1_def isResultOfOp_def Let_def
  by (cases loc0; cases loc1) simp_all

theorem isResultOfOp_set_rule_witness:
  "isResultOfOp BOUNDARY EXTERIOR opINTERSECTION = False
 \<and> isResultOfOp BOUNDARY EXTERIOR opUNION = True
 \<and> isResultOfOp BOUNDARY EXTERIOR opDIFFERENCE = True
 \<and> isResultOfOp BOUNDARY EXTERIOR opSYMDIFFERENCE = True
 \<and> isResultOfOp BOUNDARY EXTERIOR (opOther 7) = False"
  using isResultOfOp_set_rule [of BOUNDARY EXTERIOR 7] by simp

section \<open>Dimension of the result and the empty result\<close>

text \<open>
  C2. \<open>resultDimension\<close> is the minimum of the dimensions of the two geometries for an
  intersection, the maximum for a union and for a symmetric difference, and the
  dimension of the first geometry for a difference. \<open>createEmptyResult\<close> is the
  factory's empty point when that dimension is \<open>P\<close>, its empty line string when it is
  \<open>L\<close>, its empty polygon when it is \<open>A\<close>, and its empty geometry collection otherwise.
\<close>

theorem resultDimension_createEmptyResult:
  fixes getDim :: "'g \<Rightarrow> DimensionType"
  shows "resultDimension dimFalse getDim opINTERSECTION g0 g1 = min (getDim g0) (getDim g1)
       \<and> resultDimension dimFalse getDim opUNION g0 g1 = max (getDim g0) (getDim g1)
       \<and> resultDimension dimFalse getDim opSYMDIFFERENCE g0 g1 = max (getDim g0) (getDim g1)
       \<and> resultDimension dimFalse getDim opDIFFERENCE g0 g1 = getDim g0
       \<and> (resultDimension dimFalse getDim opCode a b = Dimension_P \<longrightarrow>
            createEmptyResult dimFalse getDim opCode a b gf = createPoint gf)
       \<and> (resultDimension dimFalse getDim opCode a b = Dimension_L \<longrightarrow>
            createEmptyResult dimFalse getDim opCode a b gf = createLineString gf)
       \<and> (resultDimension dimFalse getDim opCode a b = Dimension_A \<longrightarrow>
            createEmptyResult dimFalse getDim opCode a b gf = createPolygon gf)
       \<and> (resultDimension dimFalse getDim opCode a b \<notin> {Dimension_P, Dimension_L, Dimension_A} \<longrightarrow>
            createEmptyResult dimFalse getDim opCode a b gf = createGeometryCollection gf)"
  by (simp add: resultDimension_def createEmptyResult_def Let_def
        Dimension_P_def Dimension_L_def Dimension_A_def)

theorem resultDimension_createEmptyResult_witness:
  "resultDimension (-1) snd opINTERSECTION (''pt'', 0) (''poly'', 2) = 0
 \<and> createEmptyResult (-1) snd opINTERSECTION (''pt'', 0) (''poly'', 2) nameFactory = (''Point'', 0)
 \<and> createEmptyResult (-1) snd opDIFFERENCE (''line'', 1) (''poly'', 2) nameFactory = (''LineString'', 1)
 \<and> createEmptyResult (-1) snd opUNION (''pt'', 0) (''poly'', 2) nameFactory = (''Polygon'', 2)
 \<and> createEmptyResult (-1) snd (opOther 9) (''pt'', 0) (''poly'', 2) nameFactory
      = (''GeometryCollection'', -1)"
  using resultDimension_createEmptyResult
          [of "-1" snd "(''pt'', 0)" "(''poly'', 2)" opINTERSECTION "(''pt'', 0)" "(''poly'', 2)" nameFactory]
        resultDimension_createEmptyResult
          [of "-1" snd "(''pt'', 0)" "(''poly'', 2)" opDIFFERENCE "(''line'', 1)" "(''poly'', 2)" nameFactory]
        resultDimension_createEmptyResult
          [of "-1" snd "(''pt'', 0)" "(''poly'', 2)" opUNION "(''pt'', 0)" "(''poly'', 2)" nameFactory]
        resultDimension_createEmptyResult
          [of "-1" snd "(''pt'', 0)" "(''poly'', 2)" "opOther 9" "(''pt'', 0)" "(''poly'', 2)" nameFactory]
  by (simp add: resultDimension_def nameFactory_def Dimension_P_def Dimension_L_def Dimension_A_def)

section \<open>Order of the components of the result\<close>

lemma geomList_append:
  "geomList ps ls as = ps @ ls @ as"
  by (simp add: geomList_def)

lemma sorted_dimensions:
  assumes "\<forall>p \<in> set ps. getDim p = Dimension_P"
      and "\<forall>l \<in> set ls. getDim l = Dimension_L"
      and "\<forall>a \<in> set as. getDim a = Dimension_A"
  shows "sorted (map getDim (ps @ ls @ as))"
proof -
  have "sorted (map getDim ps)" "sorted (map getDim ls)" "sorted (map getDim as)"
    using assms by (simp_all add: sorted_wrt_iff_nth_less)
  then show ?thesis
    using assms
    by (auto simp: sorted_append Dimension_P_def Dimension_L_def Dimension_A_def)
qed

text \<open>
  C5. The vector \<open>computeGeometry\<close> hands to the factory holds the result points first,
  then the result lines, then the result polygons: with every point of dimension \<open>P\<close>,
  every line of dimension \<open>L\<close> and every polygon of dimension \<open>A\<close>, the dimensions along
  the vector never decrease. A result with a component is built by the factory from that
  vector. When the three lists are empty, the result is the empty result of the operation
  for the two argument geometries.
\<close>

theorem computeGeometry_order:
  fixes getDim :: "'g \<Rightarrow> DimensionType"
  assumes "\<forall>p \<in> set points. getDim p = Dimension_P"
      and "\<forall>l \<in> set lines. getDim l = Dimension_L"
      and "\<forall>a \<in> set polys. getDim a = Dimension_A"
  shows "geomList points lines polys = points @ lines @ polys
       \<and> sorted (map getDim (geomList points lines polys))
       \<and> (geomList points lines polys \<noteq> [] \<longrightarrow>
            computeGeometry dimFalse getDim gf arg0 arg1 points lines polys opCode
              = buildGeometry gf (points @ lines @ polys))
       \<and> (points = [] \<and> lines = [] \<and> polys = [] \<longrightarrow>
            computeGeometry dimFalse getDim gf arg0 arg1 points lines polys opCode
              = createEmptyResult dimFalse getDim opCode arg0 arg1 gf)"
  using sorted_dimensions [OF assms]
  by (simp add: geomList_append computeGeometry_def)

theorem computeGeometry_order_witness:
  "geomList [(''p1'', 0), (''p2'', 0)] [(''l1'', 1)] [(''a1'', 2::int)]
     = [(''p1'', 0), (''p2'', 0), (''l1'', 1), (''a1'', 2)]
 \<and> sorted (map snd (geomList [(''p1'', 0), (''p2'', 0)] [(''l1'', 1)] [(''a1'', 2::int)]))
 \<and> computeGeometry (-1) snd nameFactory (''g0'', 2) (''g1'', 2)
      [(''p1'', 0), (''p2'', 0)] [(''l1'', 1)] [(''a1'', 2)] opUNION = (''p1p2l1a1'', 2)
 \<and> computeGeometry (-1) snd nameFactory (''g0'', 1) (''g1'', 2) [] [] [] opINTERSECTION
      = (''LineString'', 1)"
proof -
  have d: "\<forall>p \<in> set [(''p1'', 0), (''p2'', 0::int)]. snd p = Dimension_P"
          "\<forall>l \<in> set [(''l1'', 1::int)]. snd l = Dimension_L"
          "\<forall>a \<in> set [(''a1'', 2::int)]. snd a = Dimension_A"
    by (simp_all add: Dimension_P_def Dimension_L_def Dimension_A_def)
  have e: "\<forall>p \<in> set ([] :: (string \<times> int) list). snd p = Dimension_P"
          "\<forall>l \<in> set ([] :: (string \<times> int) list). snd l = Dimension_L"
          "\<forall>a \<in> set ([] :: (string \<times> int) list). snd a = Dimension_A"
    by simp_all
  show ?thesis
    using computeGeometry_order [OF d, of "-1" nameFactory "(''g0'', 2)" "(''g1'', 2)" opUNION]
          computeGeometry_order [OF e, of "-1" nameFactory "(''g0'', 1)" "(''g1'', 2)" opINTERSECTION]
    by (simp add: nameFactory_def createEmptyResult_def resultDimension_def
          Dimension_P_def Dimension_L_def Dimension_A_def)
qed

section \<open>Noding validation in \<open>computeOverlay\<close>\<close>

lemma seqc_Inr:
  "m s = (Inr a, s1) \<Longrightarrow> seqc m n s = n s1"
  by (simp add: seqc_def bindc_def)

lemma seqc_Inl:
  "m s = (Inl ex, s1) \<Longrightarrow> seqc m n s = (Inl ex, s1)"
  by (simp add: seqc_def bindc_def)

lemma validateNoding_TopologyException:
  "checkValid X (edgeList s) = Some (TopologyException msg) \<Longrightarrow>
   validateNoding X s = (Inl (TopologyException msg), s\<lparr>edgeList := []\<rparr>)"
  by (simp add: validateNoding_def)

text \<open>
  C6. When the steps up to \<open>replaceCollapsedEdges\<close> have returned and
  \<open>EdgeNodingValidator::checkValid\<close> throws a \<open>TopologyException\<close> on the edge list they
  left, \<open>computeOverlay\<close> throws that exception, and the state it leaves is the state
  after those steps with the edge list cleared: nothing of the result is built.
\<close>

theorem computeOverlay_invalid_noding:
  assumes "nodeAndInsertEdges X opCode s = (Inr (), s1)"
      and "checkValid X (edgeList s1) = Some (TopologyException msg)"
  shows "computeOverlay X opCode s = (Inl (TopologyException msg), s1\<lparr>edgeList := []\<rparr>)
       \<and> edgeList (snd (computeOverlay X opCode s)) = []
       \<and> resultGeom (snd (computeOverlay X opCode s)) = resultGeom s1
       \<and> resultPolyList (snd (computeOverlay X opCode s)) = resultPolyList s1
       \<and> resultLineList (snd (computeOverlay X opCode s)) = resultLineList s1
       \<and> resultPointList (snd (computeOverlay X opCode s)) = resultPointList s1"
proof -
  have "computeOverlay X opCode s = seqc (validateNoding X) (buildResult X opCode) s1"
    unfolding computeOverlay_def using assms(1) by (rule seqc_Inr)
  also have "\<dots> = (Inl (TopologyException msg), s1\<lparr>edgeList := []\<rparr>)"
    using validateNoding_TopologyException [OF assms(2)] by (rule seqc_Inl)
  finally show ?thesis by simp
qed

lemma repeatedEdgeCalls_noding:
  "nodeAndInsertEdges repeatedEdgeCalls opUNION newOverlayOp
     = (Inr (), newOverlayOp\<lparr>edgeList := [5, 5]\<rparr>)"
  by (simp add: nodeAndInsertEdges_def repeatedEdgeCalls_def newOverlayOp_def targetEnvelope_def
        seqc_def bindc_def returnc_def)

theorem computeOverlay_invalid_noding_witness:
  "computeOverlay repeatedEdgeCalls opUNION newOverlayOp
     = (Inl (TopologyException ''found non-noded intersection''), newOverlayOp)
 \<and> resultGeom (snd (computeOverlay repeatedEdgeCalls opUNION newOverlayOp)) = None"
proof -
  have v: "checkValid repeatedEdgeCalls (edgeList (newOverlayOp\<lparr>edgeList := [5, 5]\<rparr>))
             = Some (TopologyException ''found non-noded intersection'')"
    by (simp add: repeatedEdgeCalls_def)
  show ?thesis
    using computeOverlay_invalid_noding [OF repeatedEdgeCalls_noding v]
    by (simp add: newOverlayOp_def)
qed

section \<open>Linking the result-area edges at a node\<close>

lemma setNextResultMax_simps [simp]:
  "oNextOE (setNextResultMax e out G) = oNextOE G"
  "symOE (setNextResultMax e out G) = symOE G"
  "isInResultArea (setNextResultMax e out G) = isInResultArea G"
  "isResultMaxLinked (setNextResultMax e out G) e"
  by (simp_all add: setNextResultMax_def isResultMaxLinked_def)




text \<open>
  The loop against the scan of the out-edges: first the state in which an in-edge is
  held and an out-edge looked for, then the state in which the in-edge is looked for.
\<close>

lemma out_edge_cycle_link [simp]:
  "out_edge_cycle (setNextResultMax e out G) endOut c cs = out_edge_cycle G endOut c cs"
  by (induction cs arbitrary: c) simp_all







lemma out_edge_cycle_exists:
  "0 < n \<Longrightarrow> (oNextOE G ^^ n) c = endOut \<Longrightarrow> \<exists>cs. out_edge_cycle G endOut c cs \<and> length cs < n"
proof (induction n arbitrary: c)
  case 0
  then show ?case by simp
next
  case (Suc n)
  show ?case
  proof (cases "oNextOE G c = endOut")
    case True
    then have "out_edge_cycle G endOut c []" by simp
    then show ?thesis by (intro exI [of _ "[]"]) simp
  next
    case False
    then have "n \<noteq> 0" using Suc.prems(2) by (cases n) auto
    then have n: "0 < n" by simp
    have "(oNextOE G ^^ n) (oNextOE G c) = endOut"
      using Suc.prems(2) by (simp add: funpow_swap1)
    from Suc.IH [OF n this] obtain ds
      where "out_edge_cycle G endOut (oNextOE G c) ds" "length ds < n" by blast
    then have "out_edge_cycle G endOut c (oNextOE G c # ds) \<and> length (oNextOE G c # ds) < Suc n"
      using False by simp
    then show ?thesis by blast
  qed
qed



lemma scan_result_throws_unchanged:
  "fst (scan_result G es) = ScanComplete STATE_LINK_OUTGOING \<Longrightarrow> snd (scan_result G es) = G"
  by (auto simp: scan_result_def link_result_def split: list.splits if_splits)


lemma from_first_incoming_Cons:
  "(from_first_incoming G es = out # after) =
     (\<exists>before. es = before @ out # after
        \<and> (\<forall>b \<in> set before. \<not> isInResultArea G (symOE G b))
        \<and> isInResultArea G (symOE G out))"
  unfolding from_first_incoming_def
  by (auto simp: dropWhile_eq_Cons_conv takeWhile_eq_all_conv dest: set_takeWhileD
           intro: exI [of _ "takeWhile (\<lambda>out. \<not> isInResultArea G (symOE G out)) es"])

lemma from_next_outgoing_Cons:
  "(from_next_outgoing G es = out # rest) =
     (\<exists>before. es = before @ out # rest
        \<and> (\<forall>b \<in> set before. \<not> isInResultArea G b)
        \<and> isInResultArea G out)"
  unfolding from_next_outgoing_def
  by (auto simp: dropWhile_eq_Cons_conv takeWhile_eq_all_conv dest: set_takeWhileD
           intro: exI [of _ "takeWhile (\<lambda>out. \<not> isInResultArea G out) es"])





section \<open>The input format of \<open>LWGEOM_in\<close>\<close>

lemma format_of_char_at:
  "format_of str = (if char_at str 0 = CHR ''0'' then HexWKB else if char_at str 0 = CHR ''{'' then GeoJSON else WKT)"
  by (cases str) (simp_all add: format_of_def char_at_def NUL_def)

lemma scan_semicolon_None: "(scan_semicolon s = None) = (CHR '';'' \<notin> set s)"
  by (induction s) auto

lemma scan_semicolon_Some:
  "scan_semicolon s = Some i \<Longrightarrow> i = length (takeWhile (\<lambda>c. c \<noteq> CHR '';'') s) \<and> CHR '';'' \<in> set s"
  by (induction s arbitrary: i) (auto split: if_splits)

lemma drop_Suc_takeWhile:
  "drop (Suc (length (takeWhile P s))) s = drop 1 (dropWhile P s)"
  by (induction s) auto

lemma char_at_drop: "char_at s (i + 1) = char_at (drop (i + 1) s) 0"
  by (simp add: char_at_def)

lemma tolower_semicolon: "tolower c \<in> set ''srid='' \<Longrightarrow> c \<noteq> CHR '';''"
  by (auto simp: tolower_def Let_def)


lemma map_tolower_SRID: "map tolower ''SRID='' = ''srid=''"
  by code_simp

lemma srid_prefix_no_semicolon:
  assumes "strncasecmp_eq s ''SRID='' 5"
  shows "length (take 5 s) = 5" and "\<forall>c \<in> set (take 5 s). c \<noteq> CHR '';''"
proof -
  have t: "take 5 ''SRID='' = ''SRID=''" by simp
  have m: "map tolower (take 5 s) = ''srid=''"
    using assms unfolding strncasecmp_eq_def t map_tolower_SRID .
  then have "length (map tolower (take 5 s)) = 5" by simp
  then show "length (take 5 s) = 5" by simp
  show "\<forall>c \<in> set (take 5 s). c \<noteq> CHR '';''"
  proof
    fix c assume "c \<in> set (take 5 s)"
    then have "tolower c \<in> set (map tolower (take 5 s))" by simp
    then have "tolower c \<in> set ''srid=''" unfolding m .
    then show "c \<noteq> CHR '';''" by (rule tolower_semicolon)
  qed
qed

lemma takeWhile_after_prefix:
  assumes "strncasecmp_eq s ''SRID='' 5"
  shows "takeWhile (\<lambda>c. c \<noteq> CHR '';'') s = take 5 s @ takeWhile (\<lambda>c. c \<noteq> CHR '';'') (drop 5 s)"
proof -
  have "takeWhile (\<lambda>c. c \<noteq> CHR '';'') (take 5 s @ drop 5 s)
          = take 5 s @ takeWhile (\<lambda>c. c \<noteq> CHR '';'') (drop 5 s)"
    using srid_prefix_no_semicolon(2) [OF assms] by (intro takeWhile_append2) simp
  then show ?thesis by simp
qed

lemma header_digits:
  assumes "strncasecmp_eq s ''SRID='' 5"
  shows "take (length (takeWhile (\<lambda>c. c \<noteq> CHR '';'') s) - 5) (drop 5 s)
           = takeWhile (\<lambda>c. c \<noteq> CHR '';'') (drop 5 s)"
proof -
  have "length (takeWhile (\<lambda>c. c \<noteq> CHR '';'') s)
          = 5 + length (takeWhile (\<lambda>c. c \<noteq> CHR '';'') (drop 5 s))"
    using takeWhile_after_prefix [OF assms] srid_prefix_no_semicolon(1) [OF assms]
    by (metis length_append)
  then show ?thesis
    by (simp add: takeWhile_eq_take [symmetric])
qed

lemma srid_prefix_spec:
  assumes "strncasecmp_eq input ''SRID='' 5 \<longrightarrow> CHR '';'' \<in> set input"
  shows "srid_prefix api input = Inr (payload input, header_srid api input)"
proof (cases "strncasecmp_eq input ''SRID='' 5")
  case False
  then show ?thesis
    by (simp add: srid_prefix_def payload_def header_srid_def wkb_header_def Let_def)
next
  case True
  with assms have semi: "CHR '';'' \<in> set input" by simp
  then obtain tmp where tmp: "scan_semicolon input = Some tmp"
    using scan_semicolon_None [of input] by auto
  note i = scan_semicolon_Some [OF tmp, THEN conjunct1]
  have d: "drop (tmp + 1) input = drop 1 (dropWhile (\<lambda>c. c \<noteq> CHR '';'') input)"
    unfolding i using drop_Suc_takeWhile [of "\<lambda>c. c \<noteq> CHR '';''" input] by simp
  have c: "(char_at input (tmp + 1) = CHR ''0'')
             = (format_of (drop 1 (dropWhile (\<lambda>c. c \<noteq> CHR '';'') input)) = HexWKB)"
    unfolding char_at_drop d by (simp add: format_of_char_at)
  have n: "take (tmp - 5) (drop 5 input) = takeWhile (\<lambda>c. c \<noteq> CHR '';'') (drop 5 input)"
    unfolding i using True by (rule header_digits)
  show ?thesis
    using True semi tmp c d n
    by (simp add: srid_prefix_def payload_def header_srid_def wkb_header_def Let_def)
qed

lemma LWGEOM_in_parse:
  assumes "srid_prefix api input = Inr (str, srid)"
  shows "LWGEOM_in api input = Inr (map_option (finish api (format_of str) srid) (chosen_parser api str))"
  using assms
  by (auto simp: LWGEOM_in_def format_of_char_at chosen_parser_def finish_def Let_def
           split: option.splits bool.splits prod.splits)

text \<open>
  C3, as the claim states it, does not hold: the SRID of the header is applied only when it
  is not 0. For a header \<open>SRID=0;\<close> before the hex form of a point that carries the SRID
  4326, the result keeps 4326, where the claim has the parsed SRID 0 applied.
\<close>

theorem LWGEOM_in_srid_zero_counterexample:
  "LWGEOM_in sketch_api srid0_ewkb = Inr (Some (''POINT'', 4326, False))
 \<and> payload srid0_ewkb = ''0101000020E6100000000000000000F03F000000000000F03F''
 \<and> format_of (payload srid0_ewkb) = HexWKB
 \<and> header_srid sketch_api srid0_ewkb = 0
 \<and> map_option (finish_as_claimed sketch_api (format_of (payload srid0_ewkb)) (header_srid sketch_api srid0_ewkb))
      (chosen_parser sketch_api (payload srid0_ewkb)) = Some (''POINT'', 0, False)"
  by code_simp

text \<open>
  C3, amended. For an input that does not start with \<open>SRID=\<close>, or that has a \<open>;\<close>, the
  result is decided by the first character of the input without its header, the header
  being stripped when hex WKB follows it: \<open>0\<close> for hex WKB, with the SRID of the header
  applied when it is not 0, \<open>{\<close> for GeoJSON, WKT otherwise; and the result is the null
  pointer whenever the parser chosen gives no geometry.
\<close>

theorem LWGEOM_in_format:
  assumes "strncasecmp_eq input ''SRID='' 5 \<longrightarrow> CHR '';'' \<in> set input"
  shows "LWGEOM_in api input
           = Inr (map_option (finish api (format_of (payload input)) (header_srid api input))
                    (chosen_parser api (payload input)))
       \<and> (chosen_parser api (payload input) = None \<longrightarrow> LWGEOM_in api input = Inr None)"
proof -
  have "srid_prefix api input = Inr (payload input, header_srid api input)"
    using assms by (rule srid_prefix_spec)
  then have "LWGEOM_in api input
           = Inr (map_option (finish api (format_of (payload input)) (header_srid api input))
                    (chosen_parser api (payload input)))"
    by (rule LWGEOM_in_parse)
  then show ?thesis by simp
qed

theorem LWGEOM_in_format_witness:
  "LWGEOM_in sketch_api srid_wkb = Inr (Some (''POINT'', 4326, False))
 \<and> LWGEOM_in sketch_api geojson_point = Inr (Some (''GEOJSON'', 4326, False))
 \<and> LWGEOM_in sketch_api ewkt_point = Inr (Some (''POINT'', 4326, False))
 \<and> LWGEOM_in sketch_api ''LINESTRING'' = Inr None"
proof -
  have h: "strncasecmp_eq srid_wkb ''SRID='' 5 \<longrightarrow> CHR '';'' \<in> set srid_wkb"
          "strncasecmp_eq geojson_point ''SRID='' 5 \<longrightarrow> CHR '';'' \<in> set geojson_point"
          "strncasecmp_eq ewkt_point ''SRID='' 5 \<longrightarrow> CHR '';'' \<in> set ewkt_point"
          "strncasecmp_eq ''LINESTRING'' ''SRID='' 5 \<longrightarrow> CHR '';'' \<in> set ''LINESTRING''"
    by code_simp+
  have e: "map_option (finish sketch_api (format_of (payload srid_wkb)) (header_srid sketch_api srid_wkb))
             (chosen_parser sketch_api (payload srid_wkb)) = Some (''POINT'', 4326, False)"
          "map_option (finish sketch_api (format_of (payload geojson_point)) (header_srid sketch_api geojson_point))
             (chosen_parser sketch_api (payload geojson_point)) = Some (''GEOJSON'', 4326, False)"
          "map_option (finish sketch_api (format_of (payload ewkt_point)) (header_srid sketch_api ewkt_point))
             (chosen_parser sketch_api (payload ewkt_point)) = Some (''POINT'', 4326, False)"
          "chosen_parser sketch_api (payload ''LINESTRING'') = None"
    by code_simp+
  show ?thesis
    using LWGEOM_in_format [OF h(1), of sketch_api] LWGEOM_in_format [OF h(2), of sketch_api]
          LWGEOM_in_format [OF h(3), of sketch_api] LWGEOM_in_format [OF h(4), of sketch_api] e
    by simp
qed

section \<open>The distance of two geographies by their trees\<close>

lemma CircTreePIP_polygon_only:
  assumes "LW_FALSE X = 0" and "CircTreePIP X fr t g p = Inr r" and "r \<noteq> 0"
  shows "gserialized_get_type X g = POLYGONTYPE X \<or> gserialized_get_type X g = MULTIPOLYGONTYPE X"
  using assms by (auto simp: CircTreePIP_def Let_def split: if_splits prod.splits)

lemma CircTreePIP_returns:
  assumes "lwerror_returns X"
  shows "\<exists>r. CircTreePIP X fr t g p = Inr r"
  using assms by (auto simp: CircTreePIP_def Let_def split: prod.splits)

lemma CircTreePIP_abort_message:
  "CircTreePIP X fr t g p = Inl ex \<Longrightarrow>
     ex = OtherException ''CircTreePIP: Unable to generate outside point!'' \<and> \<not> lwerror_returns X"
  by (auto simp: CircTreePIP_def Let_def split: if_splits prod.splits)

text \<open>
  C4. With \<open>LW_FALSE\<close> the false value 0: \<open>geography_tree_distance\<close> returns
  \<open>LW_SUCCESS\<close>, and the distance it writes is \<open>0.0\<close> when the start point of the second
  input lies inside the first or the start point of the first inside the second, and the
  distance of the two trees otherwise; \<open>CircTreePIP\<close> reports a point inside only for
  an input of type \<open>POLYGONTYPE\<close> or \<open>MULTIPOLYGONTYPE\<close>. The function fails to return
  only where \<open>CircTreePIP\<close> calls \<open>lwerror\<close>, for want of a point outside, under a
  handler that does not come back.
\<close>

theorem geography_tree_distance_result:
  assumes "LW_FALSE X = 0"
  shows "geography_tree_distance X sp1 sp2 fr1 fr2 g1 g2 s tol =
           (if pip_aborts X fr1 (start_point X sp2 g2) g1
               \<or> (\<not> lies_inside X fr1 (start_point X sp2 g2) g1 \<and> pip_aborts X fr2 (start_point X sp1 g1) g2)
            then Inl (OtherException ''CircTreePIP: Unable to generate outside point!'')
            else Inr (LW_SUCCESS X,
                      if lies_inside X fr1 (start_point X sp2 g2) g1
                           \<or> lies_inside X fr2 (start_point X sp1 g1) g2
                      then double_zero X
                      else circ_tree_distance_tree X (tree_of X g1) (tree_of X g2) s tol))
       \<and> (lwerror_returns X \<longrightarrow> \<not> pip_aborts X fr p g)
       \<and> (lies_inside X fr p g \<longrightarrow>
            gserialized_get_type X g = POLYGONTYPE X \<or> gserialized_get_type X g = MULTIPOLYGONTYPE X)"
proof (intro conjI impI)
  show "\<not> pip_aborts X fr p g" if "lwerror_returns X"
    using CircTreePIP_returns [OF that, of fr "tree_of X g" g p]
    by (auto simp: pip_aborts_def)
  show "gserialized_get_type X g = POLYGONTYPE X \<or> gserialized_get_type X g = MULTIPOLYGONTYPE X"
    if "lies_inside X fr p g"
    using that CircTreePIP_polygon_only [OF assms, of fr "tree_of X g" g p]
    by (auto simp: lies_inside_def split: sum.splits)
  show "geography_tree_distance X sp1 sp2 fr1 fr2 g1 g2 s tol =
           (if pip_aborts X fr1 (start_point X sp2 g2) g1
               \<or> (\<not> lies_inside X fr1 (start_point X sp2 g2) g1 \<and> pip_aborts X fr2 (start_point X sp1 g1) g2)
            then Inl (OtherException ''CircTreePIP: Unable to generate outside point!'')
            else Inr (LW_SUCCESS X,
                      if lies_inside X fr1 (start_point X sp2 g2) g1
                           \<or> lies_inside X fr2 (start_point X sp1 g1) g2
                      then double_zero X
                      else circ_tree_distance_tree X (tree_of X g1) (tree_of X g2) s tol))"
  proof (cases "CircTreePIP X fr1 (tree_of X g1) g1 (start_point X sp2 g2)")
    case (Inl ex)
    then show ?thesis
      using CircTreePIP_abort_message [OF Inl]
      by (simp add: geography_tree_distance_def Let_def pip_aborts_def tree_of_def start_point_def)
  next
    case in1: (Inr r1)
    show ?thesis
    proof (cases "r1 \<noteq> 0")
      case True
      then show ?thesis
        using in1
        by (simp add: geography_tree_distance_def Let_def pip_aborts_def lies_inside_def
              tree_of_def start_point_def)
    next
      case z: False
      show ?thesis
      proof (cases "CircTreePIP X fr2 (tree_of X g2) g2 (start_point X sp1 g1)")
        case (Inl ex)
        then show ?thesis
          using in1 z CircTreePIP_abort_message [OF Inl]
          by (simp add: geography_tree_distance_def Let_def pip_aborts_def lies_inside_def
                tree_of_def start_point_def)
      next
        case (Inr r2)
        then show ?thesis
          using in1 z
          by (simp add: geography_tree_distance_def Let_def pip_aborts_def lies_inside_def
                tree_of_def start_point_def)
      qed
    qed
  qed
qed

theorem geography_tree_distance_result_witness:
  "geography_tree_distance plane_calls (0, 0) (0, 0) no_frame no_frame (3, 5, 5) (1, 1, 1) () 0 = Inr (1, 0)
 \<and> geography_tree_distance plane_calls (0, 0) (0, 0) no_frame no_frame (3, 5, 5) (1, 8, 8) () 0 = Inr (1, 6)
 \<and> lies_inside plane_calls no_frame (1, 1) (3, 5, 5)
 \<and> gserialized_get_type plane_calls (3, 5, 5) = POLYGONTYPE plane_calls"
proof -
  have z: "LW_FALSE plane_calls = 0"
    by (simp add: plane_calls_def)
  have e: "\<not> pip_aborts plane_calls no_frame (start_point plane_calls (0, 0) (1, 1, 1)) (3, 5, 5)"
          "lies_inside plane_calls no_frame (start_point plane_calls (0, 0) (1, 1, 1)) (3, 5, 5)"
          "\<not> pip_aborts plane_calls no_frame (start_point plane_calls (0, 0) (1, 8, 8)) (3, 5, 5)"
          "\<not> lies_inside plane_calls no_frame (start_point plane_calls (0, 0) (1, 8, 8)) (3, 5, 5)"
          "\<not> pip_aborts plane_calls no_frame (start_point plane_calls (0, 0) (3, 5, 5)) (1, 8, 8)"
          "\<not> lies_inside plane_calls no_frame (start_point plane_calls (0, 0) (3, 5, 5)) (1, 8, 8)"
          "circ_tree_distance_tree plane_calls (tree_of plane_calls (3, 5, 5)) (tree_of plane_calls (1, 8, 8)) () 0 = 6"
          "LW_SUCCESS plane_calls = 1" "double_zero plane_calls = 0"
          "lies_inside plane_calls no_frame (1, 1) (3, 5, 5)"
          "gserialized_get_type plane_calls (3, 5, 5) = POLYGONTYPE plane_calls"
    by code_simp+
  show ?thesis
    using geography_tree_distance_result [OF z, of "(0, 0)" "(0, 0)" no_frame no_frame "(3, 5, 5)" "(1, 1, 1)" "()" 0
            no_frame "(1, 1)" "(3, 5, 5)"]
          geography_tree_distance_result [OF z, of "(0, 0)" "(0, 0)" no_frame no_frame "(3, 5, 5)" "(1, 8, 8)" "()" 0
            no_frame "(1, 1)" "(3, 5, 5)"]
          e
    by simp
qed

section \<open>The buffered reader: position\<close>

lemma tell_underflow:
  assumes "m_read_pos r \<le> m_read_end r" "underflow dr r = (ok, r1)"
  shows "tell r1 = tell r"
  using assms
  by (auto simp: underflow_def tell_def Let_def split: if_splits prod.splits)

lemma underflow_True_lt:
  assumes "underflow dr r = (True, r1)"
  shows "m_read_pos r1 < m_read_end r1"
  using assms
  by (auto simp: underflow_def Let_def split: if_splits prod.splits)

lemma tell_advance:
  assumes "m_read_pos r < m_read_end r"
  shows "tell (r\<lparr>m_read_pos := m_read_pos r + 1\<rparr>) = tell r + 1"
  using assms by (simp add: tell_def)

lemma tell_open: "tell (snd (open_reader do_open r)) = 0"
  by (simp add: open_reader_def tell_def Let_def split: prod.splits)

lemma tell_close: "tell (close_reader do_close r) = 0"
  by (simp add: close_reader_def tell_def Let_def buf_size_def)

lemma tell_unread:
  "m_read_pos r \<le> m_read_end r \<Longrightarrow> tell r = m_cnt_read r - of_nat (m_read_end r - m_read_pos r)"
  by (simp add: tell_def of_nat_diff)

lemma next_char_Some:
  assumes "next_char dr r = (Some c, r')"
  obtains r1 where "underflow dr r = (True, r1)" "r' = r1\<lparr>m_read_pos := m_read_pos r1 + 1\<rparr>"
    "c = m_buffer r1 ! m_read_pos r1"
  using assms by (auto simp: next_char_def split: prod.splits bool.splits)

lemma check_next_char_True:
  assumes "check_next_char dr c r = (True, r')"
  obtains r1 where "underflow dr r = (True, r1)" "r' = r1\<lparr>m_read_pos := m_read_pos r1 + 1\<rparr>"
    "m_buffer r1 ! m_read_pos r1 = c"
  using assms by (auto simp: check_next_char_def split: prod.splits bool.splits if_splits)

lemma tell_next_char:
  assumes "m_read_pos r \<le> m_read_end r" "next_char dr r = (Some c, r')"
  shows "tell r' = tell r + 1"
proof -
  from assms(2) obtain r1 where u: "underflow dr r = (True, r1)"
    and r': "r' = r1\<lparr>m_read_pos := m_read_pos r1 + 1\<rparr>"
    by (rule next_char_Some)
  have "tell r' = tell r1 + 1"
    unfolding r' using underflow_True_lt [OF u] by (rule tell_advance)
  then show ?thesis
    using tell_underflow [OF assms(1) u] by simp
qed

lemma tell_check_next_char:
  assumes "m_read_pos r \<le> m_read_end r" "check_next_char dr c r = (True, r')"
  shows "tell r' = tell r + 1"
proof -
  from assms(2) obtain r1 where u: "underflow dr r = (True, r1)"
    and r': "r' = r1\<lparr>m_read_pos := m_read_pos r1 + 1\<rparr>"
    by (rule check_next_char_True)
  have "tell r' = tell r1 + 1"
    unfolding r' using underflow_True_lt [OF u] by (rule tell_advance)
  then show ?thesis
    using tell_underflow [OF assms(1) u] by simp
qed

lemma tell_read:
  assumes "m_read_pos r \<le> m_read_end r" "read dr r nbytes = (n, out, r')"
   "0 \<le> fst (dr (m_handle r) (nbytes - from_buffer r nbytes))"
  shows "tell r' = tell r + n"
  using assms 
  by (auto simp: read_def tell_def Let_def from_buffer_def  split: prod.splits if_splits)

lemma do_read_okD:
  assumes "do_read_ok dr" "dr h n = (ret, data, h')"
  shows "length data \<le> n" "ret \<le> int n" "0 \<le> ret \<Longrightarrow> length data = nat ret"
  using assms unfolding do_read_ok_def by (fastforce split: prod.splits)+

lemma length_store: "length data \<le> length buf \<Longrightarrow> length (store data buf) = length buf"
  by (simp add: store_def)

lemma read_length:
  assumes "do_read_ok dr" "reader_inv r" "read dr r nbytes = (n, out, r')"
    "0 \<le> fst (dr (m_handle r) (nbytes - from_buffer r nbytes))"
  shows "n = of_nat (length out)"
proof -
  obtain ff data h' where d: "dr (m_handle r) (nbytes - from_buffer r nbytes) = (ff, data, h')"
    by (cases "dr (m_handle r) (nbytes - from_buffer r nbytes)")
  with assms(4) have ff: "0 \<le> ff" by simp
  have l: "length data = nat ff" using do_read_okD(3) [OF assms(1) d ff] .
  have c: "length (take (from_buffer r nbytes) (drop (m_read_pos r) (m_buffer r))) = from_buffer r nbytes"
    using assms(2) by (auto simp: reader_inv_def buf_size_def from_buffer_def Let_def)
  have w: "(of_nat (nat ff) :: 64 word) = word_of_int ff"
    using ff by simp
  have "n = of_nat (from_buffer r nbytes) + word_of_int ff"
    and "out = take (from_buffer r nbytes) (drop (m_read_pos r) (m_buffer r)) @ data"
    using assms(3) d ff by (simp_all add: read_def Let_def)
  then show ?thesis
    using c l w by simp
qed

text \<open>
  C8. \<open>tell\<close> is the counter of the characters fetched from the file minus the number
  of characters still unread in the internal buffer. It is 0 after \<open>open\<close> and after
  \<open>close\<close>; refilling the buffer does not change it; it grows by 1 with every
  \<open>next_char\<close> that returns a character and every \<open>check_next_char\<close> that matches, and
  by the value \<open>read\<close> returns when the \<open>do_read\<close> inside it reports no error, which is
  the number of characters delivered to the caller.
\<close>

theorem tell_counts_consumed:
  assumes "m_read_pos r \<le> m_read_end r"
  shows "tell (snd (open_reader do_open r)) = 0
       \<and> tell (close_reader do_close r) = 0
       \<and> tell r = m_cnt_read r - of_nat (m_read_end r - m_read_pos r)
       \<and> (underflow dr r = (ok, r0) \<longrightarrow> tell r0 = tell r)
       \<and> (next_char dr r = (Some c, r1) \<longrightarrow> tell r1 = tell r + 1)
       \<and> (check_next_char dr c' r = (True, r2) \<longrightarrow> tell r2 = tell r + 1)
       \<and> (read dr r nbytes = (n, out, r3) \<and> 0 \<le> fst (dr (m_handle r) (nbytes - from_buffer r nbytes))
            \<longrightarrow> tell r3 = tell r + n)
       \<and> (read dr r nbytes = (n, out, r3) \<and> 0 \<le> fst (dr (m_handle r) (nbytes - from_buffer r nbytes))
            \<and> do_read_ok dr \<and> reader_inv r \<longrightarrow> n = of_nat (length out))"
proof (intro conjI impI)
  show "tell (snd (open_reader do_open r)) = 0" by (rule tell_open)
  show "tell (close_reader do_close r) = 0" by (rule tell_close)
  show "tell r = m_cnt_read r - of_nat (m_read_end r - m_read_pos r)"
    using assms by (rule tell_unread)
  show "tell r0 = tell r" if "underflow dr r = (ok, r0)"
    using assms that by (rule tell_underflow)
  show "tell r1 = tell r + 1" if "next_char dr r = (Some c, r1)"
    using assms that by (rule tell_next_char)
  show "tell r2 = tell r + 1" if "check_next_char dr c' r = (True, r2)"
    using assms that by (rule tell_check_next_char)
  show "tell r3 = tell r + n"
    if "read dr r nbytes = (n, out, r3) \<and> 0 \<le> fst (dr (m_handle r) (nbytes - from_buffer r nbytes))"
    using tell_read [OF assms] that by blast
  show "n = of_nat (length out)"
    if "read dr r nbytes = (n, out, r3) \<and> 0 \<le> fst (dr (m_handle r) (nbytes - from_buffer r nbytes))
         \<and> do_read_ok dr \<and> reader_inv r"
    using read_length that by blast
qed

lemma do_read_ok_flaky: "do_read_ok flaky_read"
  by (auto simp: do_read_ok_def flaky_read_def)

lemma hello1_reached:
  "next_char flaky_read hello = (Some CHR ''h'', hello1)"
  by code_simp

lemma hello1_next_char:
  "next_char flaky_read hello1 = (Some CHR ''e'', hello1\<lparr>m_read_pos := 2\<rparr>)"
  by code_simp

lemma hello1_check_next_char:
  "check_next_char flaky_read CHR ''e'' hello1 = (True, hello1\<lparr>m_read_pos := 2\<rparr>)"
  by code_simp

lemma hello1_read:
  "read flaky_read hello1 5
     = (5, ''ello '', hello1\<lparr>m_read_pos := 4, m_cnt_read := 6, m_handle := (''world'', 0)\<rparr>)"
  by code_simp

lemma hello1_read_ok:
  "0 \<le> fst (flaky_read (m_handle hello1) (5 - from_buffer hello1 5))"
  by code_simp

lemma hello1_tell: "tell hello1 = 1"
  by code_simp

theorem tell_counts_consumed_witness:
  "tell (snd (open_reader (\<lambda>h. (True, h)) hello1)) = 0
 \<and> tell (close_reader (\<lambda>h. h) hello1) = 0
 \<and> tell hello1 = 1
 \<and> tell (snd (next_char flaky_read hello1)) = 2
 \<and> tell (snd (check_next_char flaky_read CHR ''e'' hello1)) = 2
 \<and> read flaky_read hello1 5 = (5, ''ello '', hello1\<lparr>m_read_pos := 4, m_cnt_read := 6, m_handle := (''world'', 0)\<rparr>)
 \<and> tell (snd (snd (read flaky_read hello1 5))) = 6"
proof -
  have le: "m_read_pos hello1 \<le> m_read_end hello1"
    by code_simp
  have inv: "reader_inv hello1"
    by code_simp
  show ?thesis
    using tell_counts_consumed [OF le, of "\<lambda>h. (True, h)" "\<lambda>h. h" flaky_read True hello1
            "CHR ''e''" "hello1\<lparr>m_read_pos := 2\<rparr>" "CHR ''e''" "hello1\<lparr>m_read_pos := 2\<rparr>"
            5 5 "''ello ''" "hello1\<lparr>m_read_pos := 4, m_cnt_read := 6, m_handle := (''world'', 0)\<rparr>"]
      hello1_next_char hello1_check_next_char hello1_read hello1_read_ok inv
      do_read_ok_flaky hello1_tell
    by simp
qed

text \<open>
  The pointers stay in order, and inside the array, through every function of the reader:
  the hypothesis of the theorem above holds in every state a reader reaches.
\<close>

lemma reader_inv_underflow:
  assumes "do_read_ok dr" "reader_inv r" "underflow dr r = (ok, r1)"
  shows "reader_inv r1 \<and> buf_size r1 = buf_size r"
proof (cases "m_read_pos r \<ge> m_read_end r")
  case False
  then show ?thesis using assms by (simp add: underflow_def)
next
  case True
  obtain sz data h' where d: "dr (m_handle r) (buf_size r) = (sz, data, h')"
    by (cases "dr (m_handle r) (buf_size r)")
  note ok = do_read_okD [OF assms(1) d]
  have l: "length (store data (m_buffer r)) = length (m_buffer r)"
    using ok(1) by (simp add: length_store buf_size_def)
  show ?thesis
    using assms(2,3) True d l ok(2)
    by (auto simp: underflow_def Let_def reader_inv_def buf_size_def split: if_splits)
qed

lemma reader_inv_open: "reader_inv (snd (open_reader do_open r))"
  by (simp add: open_reader_def reader_inv_def buf_size_def Let_def split: prod.splits)

lemma reader_inv_close: "reader_inv (close_reader do_close r)"
  by (simp add: close_reader_def reader_inv_def buf_size_def Let_def)

lemma reader_inv_advance:
  "reader_inv r \<Longrightarrow> m_read_pos r < m_read_end r \<Longrightarrow> reader_inv (r\<lparr>m_read_pos := Suc (m_read_pos r)\<rparr>)"
  by (simp add: reader_inv_def buf_size_def)

lemma reader_inv_next_char:
  assumes "do_read_ok dr" "reader_inv r" "next_char dr r = (c, r')"
  shows "reader_inv r'"
proof (cases "underflow dr r")
  case (Pair ok r1)
  then show ?thesis
    using assms(3) reader_inv_underflow [OF assms(1,2) Pair] underflow_True_lt [of dr r r1]
    by (cases ok) (auto simp: next_char_def reader_inv_advance)
qed

lemma reader_inv_check_next_char:
  assumes "do_read_ok dr" "reader_inv r" "check_next_char dr c r = (b, r')"
  shows "reader_inv r'"
proof (cases "underflow dr r")
  case (Pair ok r1)
  then show ?thesis
    using assms(3) reader_inv_underflow [OF assms(1,2) Pair] underflow_True_lt [of dr r r1]
    by (cases ok) (auto simp: check_next_char_def reader_inv_advance split: if_splits)
qed

lemma reader_inv_read:
  assumes "reader_inv r" "read dr r nbytes = (n, out, r')"
  shows "reader_inv r'"
  using assms
  by (auto simp: read_def reader_inv_def buf_size_def from_buffer_def Let_def split: prod.splits if_splits)

lemma skip_loop_Some_le:
  "skip_loop buf e p cs = Some q \<Longrightarrow> p \<le> e \<Longrightarrow> q \<le> e \<and> q = p + length cs"
proof (induction cs arbitrary: p)
  case Nil
  then show ?case by simp
next
  case (Cons c cs)
  from Cons.prems(1) have lt: "p < e" and rest: "skip_loop buf e (p + 1) cs = Some q"
    by (auto split: if_splits)
  from Cons.IH [OF rest] lt show ?case by simp
qed

lemma reader_inv_skip_prefix:
  assumes "do_read_ok dr" "reader_inv r"
  shows "reader_inv (skip_prefix dr prefix r)"
proof (cases "underflow dr r")
  case (Pair ok r1)
  have i: "reader_inv r1" using reader_inv_underflow [OF assms Pair] by simp
  show ?thesis
  proof (cases ok)
    case False
    then show ?thesis using Pair i by (simp add: skip_prefix_def)
  next
    case True
    show ?thesis
    proof (cases "skip_loop (m_buffer r1) (m_read_end r1) (m_read_pos r1) prefix")
      case None
      then show ?thesis using Pair True i by (simp add: skip_prefix_def reader_inv_def buf_size_def)
    next
      case (Some q)
      with skip_loop_Some_le [OF Some] i show ?thesis
        using Pair True by (simp add: skip_prefix_def reader_inv_def buf_size_def)
    qed
  qed
qed

section \<open>The buffered reader: a failed \<open>do_read\<close> inside \<open>read\<close>\<close>

lemma from_buffer_pos:
  assumes "m_read_pos r < m_read_end r" "0 < nbytes"
  shows "from_buffer r nbytes = min nbytes (m_read_end r - m_read_pos r)" "0 < from_buffer r nbytes"
  using assms by (simp_all add: from_buffer_def Let_def)

lemma read_error:
  assumes "dr (m_handle r) (nbytes - from_buffer r nbytes) = (ret, data, h')" "ret < 0"
  shows "read dr r nbytes =
           (0, take (from_buffer r nbytes) (drop (m_read_pos r) (m_buffer r)) @ data,
            r\<lparr>m_read_pos := m_read_pos r + from_buffer r nbytes, m_handle := h'\<rparr>)"
  using assms by (simp add: read_def Let_def)

text \<open>
  C9. When the buffer holds unread characters, \<open>read\<close> is asked for at least one
  character and the \<open>do_read\<close> inside it returns a negative value, \<open>read\<close> returns 0,
  and yet it has copied characters of the buffer to the caller (as many as asked for, or
  all that were buffered) and moved the read position, and with it \<open>tell\<close>, past them.
\<close>

theorem read_error_returns_zero:
  assumes "m_read_pos r < m_read_end r" and "m_read_end r \<le> buf_size r" and "0 < nbytes"
      and "dr (m_handle r) (nbytes - from_buffer r nbytes) = (ret, data, h')" and "ret < 0"
  shows "read dr r nbytes =
           (0, take (from_buffer r nbytes) (drop (m_read_pos r) (m_buffer r)) @ data,
            r\<lparr>m_read_pos := m_read_pos r + from_buffer r nbytes, m_handle := h'\<rparr>)
       \<and> from_buffer r nbytes = min nbytes (m_read_end r - m_read_pos r)
       \<and> 0 < from_buffer r nbytes
       \<and> length (take (from_buffer r nbytes) (drop (m_read_pos r) (m_buffer r))) = from_buffer r nbytes
       \<and> m_read_pos (snd (snd (read dr r nbytes))) = m_read_pos r + from_buffer r nbytes
       \<and> tell (snd (snd (read dr r nbytes))) = tell r + of_nat (from_buffer r nbytes)"
proof -
  note fb = from_buffer_pos [OF assms(1,3)]
  note rd = read_error [of dr r nbytes ret data h', OF assms(4,5)]
  have len: "length (take (from_buffer r nbytes) (drop (m_read_pos r) (m_buffer r))) = from_buffer r nbytes"
    using assms(1,2) fb(1) by (simp add: buf_size_def)
  have t: "tell (r\<lparr>m_read_pos := m_read_pos r + from_buffer r nbytes, m_handle := h'\<rparr>)
             = tell r + of_nat (from_buffer r nbytes)"
    by (simp add: tell_def)
  show ?thesis
    using fb rd len t by simp
qed

lemma hello0_reached:
  "next_char flaky_read (hello\<lparr>m_handle := (''hello world'', 1)\<rparr>) = (Some CHR ''h'', hello0)"
  by code_simp

theorem read_error_returns_zero_witness:
  "read flaky_read hello0 3 = (0, ''ell'', hello0\<lparr>m_read_pos := 4\<rparr>)
 \<and> m_read_pos (snd (snd (read flaky_read hello0 3))) = 4
 \<and> m_read_pos hello0 = 1
 \<and> tell hello0 = 1
 \<and> tell (snd (snd (read flaky_read hello0 3))) = 4"
proof -
  have a: "m_read_pos hello0 < m_read_end hello0" "m_read_end hello0 \<le> buf_size hello0"
    by code_simp+
  have d: "flaky_read (m_handle hello0) (3 - from_buffer hello0 3) = (-1, [], (''o world'', 0))"
    by code_simp
  have e: "from_buffer hello0 3 = 3" "m_read_pos hello0 = 1" "tell hello0 = 1"
     "take 3 (drop 1 (m_buffer hello0)) = ''ell''"
     "hello0\<lparr>m_read_pos := 1 + 3, m_handle := (''o world'', 0)\<rparr> = hello0\<lparr>m_read_pos := 4\<rparr>"
    by code_simp+
  show ?thesis
    using read_error_returns_zero [of hello0 3 flaky_read "-1" "[]" "(''o world'', 0)"] a d e
    by auto
qed

section \<open>The buffered reader: \<open>skip_prefix\<close>\<close>

lemma skip_loop_None_iff:
  assumes "e \<le> length buf"
  shows "(skip_loop buf e p cs = None) = (take (length cs) (drop p (take e buf)) \<noteq> cs)"
  using assms
proof (induction cs arbitrary: p)
  case Nil
  then show ?case by simp
next
  case (Cons c cs)
  show ?case
  proof (cases "p \<ge> e")
    case True
    then show ?thesis using Cons.prems by simp
  next
    case False
    then have p: "p < e" by simp
    then have d: "drop p (take e buf) = buf ! p # drop (Suc p) (take e buf)"
      using Cons.prems by (simp add: Cons_nth_drop_Suc [symmetric])
    show ?thesis
      using Cons.IH [OF Cons.prems, of "Suc p"] p d by auto
  qed
qed

lemma skip_loop_short:
  "e - p < length cs \<Longrightarrow> skip_loop buf e p cs = None"
proof (induction cs arbitrary: p)
  case Nil
  then show ?case by simp
next
  case (Cons c cs)
  show ?case
  proof (cases "p \<ge> e")
    case True
    then show ?thesis by simp
  next
    case False
    with Cons.prems have "e - (p + 1) < length cs" by simp
    from Cons.IH [OF this] show ?thesis by simp
  qed
qed

lemma skip_loop_Some_eq:
  "skip_loop buf e p cs = Some q \<Longrightarrow> q = p + length cs"
proof (induction cs arbitrary: p)
  case Nil
  then show ?case by simp
next
  case (Cons c cs)
  from Cons.prems have "skip_loop buf e (p + 1) cs = Some q"
    by (auto split: if_splits)
  from Cons.IH [OF this] show ?case by simp
qed

lemma skip_loop_Some_iff:
  assumes "e \<le> length buf"
  shows "(skip_loop buf e p cs = Some q) = (take (length cs) (drop p (take e buf)) = cs \<and> q = p + length cs)"
proof (cases "skip_loop buf e p cs")
  case None
  then show ?thesis using skip_loop_None_iff [OF assms, of p cs] by simp
next
  case (Some q')
  then have n: "skip_loop buf e p cs \<noteq> None" by simp
  have "q' = p + length cs"
    using Some by (rule skip_loop_Some_eq)
  then show ?thesis
    using Some n skip_loop_None_iff [OF assms, of p cs] by auto
qed

lemma length_buffered:
  "m_read_end r \<le> buf_size r \<Longrightarrow> length (buffered r) = m_read_end r - m_read_pos r"
  by (simp add: buffered_def buf_size_def)

lemma skip_prefix_cases:
  assumes "underflow dr r = (True, r1)" and "m_read_end r1 \<le> buf_size r1"
  shows "skip_prefix dr prefix r =
          (if take (length prefix) (buffered r1) = prefix
           then r1\<lparr>m_read_pos := m_read_pos r1 + length prefix\<rparr>
           else r1\<lparr>m_read_pos := 0\<rparr>)"
proof (cases "skip_loop (m_buffer r1) (m_read_end r1) (m_read_pos r1) prefix")
  case None
  then show ?thesis
    using assms skip_loop_None_iff [of "m_read_end r1" "m_buffer r1" "m_read_pos r1" prefix]
    by (simp add: skip_prefix_def buffered_def buf_size_def)
next
  case (Some q)
  then show ?thesis
    using assms skip_loop_Some_iff [of "m_read_end r1" "m_buffer r1" "m_read_pos r1" prefix q]
    by (simp add: skip_prefix_def buffered_def buf_size_def)
qed

lemma tell_reset:
  assumes "reader_inv r1" "buf_size r1 < 2 ^ 64"
  shows "(tell (r1\<lparr>m_read_pos := 0\<rparr>) = tell r1) = (m_read_pos r1 = 0)"
proof -
  have "m_read_pos r1 < 2 ^ 64"
    using assms by (simp add: reader_inv_def)
  then have "(word_of_nat (m_read_pos r1) = (0 :: 64 word)) = (m_read_pos r1 = 0)"
    by (auto simp: word_of_nat_eq_0_iff dest: dvd_imp_le)
  moreover have "tell (r1\<lparr>m_read_pos := 0\<rparr>) = tell r1 - word_of_nat (m_read_pos r1)"
    by (simp add: tell_def)
  ultimately show ?thesis by simp
qed

text \<open>
  C10. After a successful \<open>underflow\<close>, \<open>skip_prefix\<close> fails exactly when the prefix is
  not the start of the unread characters of the buffer: a character differs, or the
  buffer ends before the prefix does. It then sets the read position to the start of the
  buffer, which is the position where the match began only when the match began at the
  start of the buffer; so it is for the position \<open>tell\<close> reports. A prefix longer than
  the unread characters of the buffer always fails: the file is not read again.
\<close>

theorem skip_prefix_failure:
  assumes "underflow dr r = (True, r1)" and "m_read_end r1 \<le> buf_size r1"
  shows "(skip_loop (m_buffer r1) (m_read_end r1) (m_read_pos r1) prefix = None)
           = (take (length prefix) (buffered r1) \<noteq> prefix)
       \<and> (take (length prefix) (buffered r1) \<noteq> prefix \<longrightarrow>
            skip_prefix dr prefix r = r1\<lparr>m_read_pos := 0\<rparr>
          \<and> (m_read_pos (skip_prefix dr prefix r) = m_read_pos r1) = (m_read_pos r1 = 0))
       \<and> (length (buffered r1) < length prefix \<longrightarrow>
            skip_prefix dr prefix r = r1\<lparr>m_read_pos := 0\<rparr>)
       \<and> (take (length prefix) (buffered r1) \<noteq> prefix \<and> m_read_pos r \<le> m_read_end r
            \<and> m_read_pos r1 \<le> m_read_end r1 \<and> buf_size r1 < 2 ^ 64 \<longrightarrow>
            (tell (skip_prefix dr prefix r) = tell r) = (m_read_pos r1 = 0))"
proof -
  note c = skip_prefix_cases [OF assms, of prefix]
  have 1: "(skip_loop (m_buffer r1) (m_read_end r1) (m_read_pos r1) prefix = None)
           = (take (length prefix) (buffered r1) \<noteq> prefix)"
    using assms(2) skip_loop_None_iff [of "m_read_end r1" "m_buffer r1" "m_read_pos r1" prefix]
    by (simp add: buffered_def buf_size_def)
  have 2: "skip_prefix dr prefix r = r1\<lparr>m_read_pos := 0\<rparr>
          \<and> (m_read_pos (skip_prefix dr prefix r) = m_read_pos r1) = (m_read_pos r1 = 0)"
    if "take (length prefix) (buffered r1) \<noteq> prefix"
    using c that by auto
  have 3: "skip_prefix dr prefix r = r1\<lparr>m_read_pos := 0\<rparr>"
    if "length (buffered r1) < length prefix"
  proof -
    have "take (length prefix) (buffered r1) \<noteq> prefix"
      using that by (metis length_take min.strict_order_iff min_less_iff_conj)
    then show ?thesis using 2 by simp
  qed
  have 4: "(tell (skip_prefix dr prefix r) = tell r) = (m_read_pos r1 = 0)"
    if "take (length prefix) (buffered r1) \<noteq> prefix \<and> m_read_pos r \<le> m_read_end r
            \<and> m_read_pos r1 \<le> m_read_end r1 \<and> buf_size r1 < 2 ^ 64"
  proof -
    have i: "reader_inv r1" using that assms(2) by (simp add: reader_inv_def)
    have "tell r1 = tell r" using tell_underflow [of r dr True r1] that assms(1) by simp
    then show ?thesis
      using 2 that tell_reset [OF i] by simp
  qed
  show ?thesis using 1 2 3 4 by blast
qed

theorem skip_prefix_failure_witness:
  "skip_prefix flaky_read ''elx'' hello1 = hello1\<lparr>m_read_pos := 0\<rparr>
 \<and> skip_prefix flaky_read ''ello'' hello1 = hello1\<lparr>m_read_pos := 0\<rparr>
 \<and> m_read_pos hello1 = 1
 \<and> tell (skip_prefix flaky_read ''elx'' hello1) \<noteq> tell hello1
 \<and> skip_prefix flaky_read ''hex'' hello = hello1\<lparr>m_read_pos := 0\<rparr>
 \<and> tell (skip_prefix flaky_read ''hex'' hello) = tell hello"
proof -
  have u: "underflow flaky_read hello1 = (True, hello1)"
    by code_simp
  have e: "m_read_end hello1 \<le> buf_size hello1"
    by code_simp
  have b: "buffered hello1 = ''ell''" "m_read_pos hello1 = 1" "m_read_end hello1 = 4"
    "buf_size hello1 = 4"
    by code_simp+
  have u0: "underflow flaky_read hello = (True, hello1\<lparr>m_read_pos := 0\<rparr>)"
    by code_simp
  have e0: "m_read_end (hello1\<lparr>m_read_pos := 0\<rparr>) \<le> buf_size (hello1\<lparr>m_read_pos := 0\<rparr>)"
    by code_simp
  have b0: "buffered (hello1\<lparr>m_read_pos := 0\<rparr>) = ''hell''"
    "m_read_pos hello \<le> m_read_end hello"
    by code_simp+
  show ?thesis
    using skip_prefix_failure [OF u e, of "''elx''"] skip_prefix_failure [OF u e, of "''ello''"]
      skip_prefix_failure [OF u0 e0, of "''hex''"] b b0
    by (auto simp: buf_size_def)
qed

end
